theory Spec2Isabelle
  imports Complex_Main
begin

text \<open>
  The renderer is embedded function by function.  Every C++ and GLSL \<open>float\<close> is read as
  a real number: rounding is left out, and the places where a \<open>float\<close> operation has no
  defined real value (a division by zero, the square root of a negative number) are
  written out as \<open>None\<close> where a statement depends on them.  Thread and array indices
  are natural numbers, device buffers are functions from the index to the element.
\<close>

section \<open>Display: window lifecycle and recording counters (display.cu)\<close>

text \<open>
  The calls into GLFW, OpenGL, ImGui and stb that \<open>Display\<close> makes are kept as a trace
  of events, in the order the source issues them.  A window handle is a number.
\<close>

datatype io_event =
    InitGlfw int int
  | InitOpenglShaders string
  | InitImgui
  | ImguiShutdown
  | DestroyWindow "nat option"
  | GlfwTerminate
  | WritePng string int int int int

text \<open>
  \<open>WritePng fp n width height stride\<close> stands for \<open>stbi_write_png\<close> on the file
  \<open>fp/output-n.png\<close> (the number \<open>n\<close> printed by the format \<open>{:#03}\<close>).
\<close>

datatype error = Runtime_error string

text \<open>
  What the window system answers during \<open>init_glfw\<close> and \<open>init_opengl_shaders\<close>:
  whether \<open>glfwInit\<close> succeeds, the window \<open>glfwCreateWindow\<close> returns (\<open>None\<close> for
  \<open>NULL\<close>), whether the GL loader initialises, the OpenGL version, and the names
  handed out by \<open>glCreateProgram\<close> and \<open>glGenVertexArrays\<close>.
\<close>

record gl_env =
  glfwInit_ok :: bool
  glfwCreateWindow_result :: "nat option"
  glewInit_ok :: bool
  gl_version_major :: int
  gl_version_minor :: int
  glCreateProgram_result :: nat
  glGenVertexArrays_result :: nat

text \<open>
  \<open>m_is_init\<close> is the static member; the other fields are those of one \<open>Display\<close>.
  The two image counters are declared in a header outside the given sources; they are
  integers here, and every statement below keeps them far from any machine bound.
\<close>

record display =
  m_is_init :: bool
  m_glfw_window :: "nat option"
  m_img_count :: int
  m_img_count_max :: int
  m_writing_buffer_size :: int
  m_blit_program :: nat
  m_blit_vao :: nat
  trace :: "io_event list"

text \<open>
  \<open>init_glfw\<close>: each \<open>throw std::runtime_error\<close> is an \<open>Inl\<close>; the state reached
  before the throw is returned with it.  The loader is GLEW (GL3W under Windows, with the
  same test); the last message carries the version numbers in the source.
\<close>

definition init_glfw :: "int \<Rightarrow> int \<Rightarrow> gl_env \<Rightarrow> display \<Rightarrow> (error + nat option) \<times> display" where
  "init_glfw resw resh env d =
     (let d0 = d\<lparr>trace := trace d @ [InitGlfw resw resh]\<rparr>
      in if \<not> glfwInit_ok env then (Inl (Runtime_error ''GLFW could not be initialized.''), d0)
         else
           (let d1 = d0\<lparr>m_glfw_window := glfwCreateWindow_result env\<rparr>
            in if m_glfw_window d1 = None
               then (Inl (Runtime_error ''GLFW window could not be created.''), d1)
               else if \<not> glewInit_ok env
               then (Inl (Runtime_error ''GLEW could not be initialized.''), d1)
               else if gl_version_major env < 3
                       \<or> (gl_version_major env = 3 \<and> gl_version_minor env < 1)
               then (Inl (Runtime_error ''Unsupported OpenGL version''), d1)
               else (Inr (m_glfw_window d1), d1)))"

definition init_opengl_shaders :: "string \<Rightarrow> gl_env \<Rightarrow> display \<Rightarrow> display" where
  "init_opengl_shaders frag_fp env d =
     d\<lparr>m_blit_program := glCreateProgram_result env,
       m_blit_vao := glGenVertexArrays_result env,
       trace := trace d @ [InitOpenglShaders frag_fp]\<rparr>"

definition init_imgui :: "display \<Rightarrow> display" where
  "init_imgui d = d\<lparr>trace := trace d @ [InitImgui]\<rparr>"

text \<open>\<open>init_window\<close> returns the window, \<open>None\<close> standing for \<open>nullptr\<close>.\<close>

definition init_window ::
  "int \<Rightarrow> int \<Rightarrow> string \<Rightarrow> gl_env \<Rightarrow> display \<Rightarrow> (error + nat option) \<times> display" where
  "init_window resw resh frag_fp env d =
     (if m_is_init d then (Inr None, d)
      else
        (case init_glfw resw resh env d of
           (Inl e, d1) \<Rightarrow> (Inl e, d1)
         | (Inr w, d1) \<Rightarrow>
             (let d2 = d1\<lparr>m_glfw_window := w\<rparr>;
                  d3 = d2\<lparr>m_img_count := 0\<rparr>;
                  d4 = init_opengl_shaders frag_fp env d3;
                  d5 = init_imgui d4;
                  d6 = d5\<lparr>m_is_init := True\<rparr>
              in (Inr (m_glfw_window d6), d6))))"

definition destroy :: "display \<Rightarrow> display" where
  "destroy d =
     (if \<not> m_is_init d then d
      else d\<lparr>trace := trace d @ [ImguiShutdown, DestroyWindow (m_glfw_window d), GlfwTerminate],
             m_glfw_window := None,
             m_is_init := False\<rparr>)"

text \<open>
  The answers of the window system under which \<open>init_glfw\<close> reaches its last line.
\<close>

definition gl_env_ok :: "gl_env \<Rightarrow> bool" where
  "gl_env_ok env \<longleftrightarrow>
     glfwInit_ok env \<and> glfwCreateWindow_result env \<noteq> None \<and> glewInit_ok env
     \<and> \<not> (gl_version_major env < 3 \<or> (gl_version_major env = 3 \<and> gl_version_minor env < 1))"

text \<open>\<open>return m_img_count++ < m_img_count_max;\<close>\<close>

definition advance_image_count :: "display \<Rightarrow> bool \<times> display" where
  "advance_image_count d =
     (m_img_count d < m_img_count_max d, d\<lparr>m_img_count := m_img_count d + 1\<rparr>)"

text \<open>
  \<open>save_image\<close>: the guard on the counter, the row stride padded to a multiple of four
  bytes, the pre-increment of the counter inside the file name, and the write.  The value
  returned by \<open>stbi_write_png\<close> is ignored by the source.  The framebuffer size read
  from GLFW is the argument \<open>(width, height)\<close>; it is non-negative, where the C
  remainder and \<open>mod\<close> agree.
\<close>

definition png_stride :: "int \<Rightarrow> int" where
  "png_stride width =
     (let stride = 3 * width
      in stride + (if stride mod 4 \<noteq> 0 then 4 - stride mod 4 else 0))"

definition save_image :: "string \<Rightarrow> int \<times> int \<Rightarrow> display \<Rightarrow> bool \<times> display" where
  "save_image filepath fb d =
     (if m_img_count d > m_img_count_max d then (False, d)
      else
        (let width = fst fb; height = snd fb;
             stride = png_stride width;
             n = m_img_count d + 1
         in (True, d\<lparr>m_img_count := n,
                     m_writing_buffer_size := stride * height,
                     trace := trace d @ [WritePng filepath n width height stride]\<rparr>)))"

text \<open>
  The end of \<open>Engine::frame\<close> (the value it returns decides whether the render loop of
  \<open>main.cu\<close> goes on).  \<open>has_output\<close>, \<open>m_end_on_loop\<close> and the result of
  \<open>m_display.is_alive()\<close> are read from members declared outside the given sources.
\<close>

definition frame_result ::
  "bool \<Rightarrow> bool \<Rightarrow> bool \<Rightarrow> string \<Rightarrow> int \<times> int \<Rightarrow> display \<Rightarrow> bool \<times> display" where
  "frame_result has_output end_on_loop alive fp fb d =
     (if has_output then save_image fp fb d
      else if end_on_loop then advance_image_count d
      else (alive, d))"

text \<open>Successive calls of \<open>advance_image_count\<close>, with the values they return.\<close>

fun advance_calls :: "nat \<Rightarrow> display \<Rightarrow> bool list \<times> display" where
  "advance_calls 0 d = ([], d)"
| "advance_calls (Suc k) d =
     (let (r, d') = advance_image_count d; (rs, d'') = advance_calls k d' in (r # rs, d''))"

text \<open>Successive calls of \<open>save_image\<close>, with the values they return.\<close>

fun save_calls :: "nat \<Rightarrow> string \<Rightarrow> int \<times> int \<Rightarrow> display \<Rightarrow> bool list \<times> display" where
  "save_calls 0 fp fb d = ([], d)"
| "save_calls (Suc k) fp fb d =
     (let (r, d') = save_image fp fb d; (rs, d'') = save_calls k fp fb d' in (r # rs, d''))"

text \<open>
  The render loop of \<open>main.cu\<close> while recording: \<open>frame\<close> is called until it returns
  false.  Only the recording part of the frame is kept here.
\<close>

function recording_loop :: "string \<Rightarrow> int \<times> int \<Rightarrow> display \<Rightarrow> display" where
  "recording_loop fp fb d =
     (case frame_result True False True fp fb d of
        (True, d') \<Rightarrow> recording_loop fp fb d'
      | (False, d') \<Rightarrow> d')"
  by pat_completeness auto
termination
  by (relation "measure (\<lambda>(fp, fb, d). nat (m_img_count_max d + 1 - m_img_count d))")
     (auto simp: frame_result_def save_image_def Let_def split: if_splits)

declare recording_loop.simps [simp del]

definition images_written :: "display \<Rightarrow> int list" where
  "images_written d = [n. WritePng fp n w h s \<leftarrow> trace d]"

subsection \<open>Texture state set up by \<open>transfer_texture\<close>, and the blend of \<open>present\<close>\<close>

datatype gl_filter = GL_NEAREST | GL_LINEAR

datatype gl_wrap = GL_REPEAT | GL_CLAMP_TO_EDGE

record tex_parameters =
  wrap_s :: gl_wrap
  wrap_t :: gl_wrap
  min_filter :: gl_filter
  mag_filter :: gl_filter

text \<open>
  The part of the OpenGL state the four \<open>glActiveTexture / glBindTexture /
  glTexParameteri\<close> groups write: the active unit, the texture bound to each unit, and
  the parameters of each texture object.
\<close>

record gl_textures =
  active_unit :: nat
  unit_binding :: "nat \<Rightarrow> nat"
  parameters :: "nat \<Rightarrow> tex_parameters"

definition glActiveTexture :: "nat \<Rightarrow> gl_textures \<Rightarrow> gl_textures" where
  "glActiveTexture u g = g\<lparr>active_unit := u\<rparr>"

definition glBindTexture :: "nat \<Rightarrow> gl_textures \<Rightarrow> gl_textures" where
  "glBindTexture t g = g\<lparr>unit_binding := (unit_binding g)(active_unit g := t)\<rparr>"

text \<open>
  The four \<open>glTexParameteri\<close> calls of one group: both wrap modes \<open>GL_REPEAT\<close>, and
  the same filter for minification and magnification, on the texture bound to the active
  unit.
\<close>

definition glTexParameters :: "gl_filter \<Rightarrow> gl_textures \<Rightarrow> gl_textures" where
  "glTexParameters f g =
     (let t = unit_binding g (active_unit g)
      in g\<lparr>parameters := (parameters g)
             (t := \<lparr>wrap_s = GL_REPEAT, wrap_t = GL_REPEAT, min_filter = f, mag_filter = f\<rparr>)\<rparr>)"

definition transfer_texture ::
  "nat \<Rightarrow> nat \<Rightarrow> nat \<Rightarrow> gl_filter \<Rightarrow> nat \<Rightarrow> nat \<Rightarrow> gl_textures \<Rightarrow> gl_textures" where
  "transfer_texture blit_program syn_rgba syn_depth rgba_filter_mode nerf_rgba nerf_depth g =
     (if blit_program = 0 then g
      else
        (let g = glTexParameters rgba_filter_mode (glBindTexture nerf_depth (glActiveTexture 3 g));
             g = glTexParameters GL_NEAREST (glBindTexture nerf_rgba (glActiveTexture 2 g));
             g = glTexParameters GL_NEAREST (glBindTexture syn_depth (glActiveTexture 1 g));
             g = glTexParameters rgba_filter_mode (glBindTexture syn_rgba (glActiveTexture 0 g))
         in g))"

text \<open>\<open>present\<close> calls \<open>transfer_texture\<close> with the filter \<open>GL_LINEAR\<close>.\<close>

definition present_textures :: "nat \<Rightarrow> nat \<Rightarrow> nat \<Rightarrow> nat \<Rightarrow> nat \<Rightarrow> gl_textures \<Rightarrow> gl_textures" where
  "present_textures blit_program nerf_rgba_texid nerf_depth_texid syn_rgba_texid syn_depth_texid g =
     transfer_texture blit_program syn_rgba_texid syn_depth_texid GL_LINEAR
       nerf_rgba_texid nerf_depth_texid g"

section \<open>Vectors\<close>

datatype vec2 = Vec2 (v2x: real) (v2y: real)

datatype vec3 = Vec3 (v3x: real) (v3y: real) (v3z: real)

datatype vec4 = Vec4 (v4x: real) (v4y: real) (v4z: real) (v4w: real)

definition vadd :: "vec3 \<Rightarrow> vec3 \<Rightarrow> vec3" where
  "vadd u v = Vec3 (v3x u + v3x v) (v3y u + v3y v) (v3z u + v3z v)"

definition vsub :: "vec3 \<Rightarrow> vec3 \<Rightarrow> vec3" where
  "vsub u v = Vec3 (v3x u - v3x v) (v3y u - v3y v) (v3z u - v3z v)"

definition vscale :: "real \<Rightarrow> vec3 \<Rightarrow> vec3" where
  "vscale s v = Vec3 (s * v3x v) (s * v3y v) (s * v3z v)"

definition dot :: "vec3 \<Rightarrow> vec3 \<Rightarrow> real" where
  "dot u v = v3x u * v3x v + v3y u * v3y v + v3z u * v3z v"

definition vlength :: "vec3 \<Rightarrow> real" where
  "vlength v = sqrt (dot v v)"

text \<open>\<open>normalize\<close> divides by the length (for the zero vector the source divides by zero).\<close>

definition normalize :: "vec3 \<Rightarrow> vec3" where
  "normalize v = vscale (1 / vlength v) v"

text \<open>The constructor \<open>vec4(vec3, float)\<close> and the swizzle \<open>.rgb\<close>.\<close>

definition vec4_of :: "vec3 \<Rightarrow> real \<Rightarrow> vec4" where
  "vec4_of v w = Vec4 (v3x v) (v3y v) (v3z v) w"

definition rgb :: "vec4 \<Rightarrow> vec3" where
  "rgb c = Vec3 (v4x c) (v4y c) (v4z c)"

section \<open>The compositing fragment shader (main.frag)\<close>

record FoveationWarp =
  al :: real
  bl :: real
  cl :: real
  am :: real
  bm :: real
  ar :: real
  br :: real
  cr :: real
  switch_left :: real
  switch_right :: real
  inv_switch_left :: real
  inv_switch_right :: real

definition clamp :: "real \<Rightarrow> real \<Rightarrow> real \<Rightarrow> real" where
  "clamp v lo hi = min (max v lo) hi"

text \<open>
  GLSL leaves \<open>sqrt\<close> of a negative number and a division by zero undefined; both are
  \<open>None\<close> here.
\<close>

definition gl_sqrt :: "real \<Rightarrow> real option" where
  "gl_sqrt v = (if v < 0 then None else Some (sqrt v))"

definition gl_div :: "real \<Rightarrow> real \<Rightarrow> real option" where
  "gl_div p q = (if q = 0 then None else Some (p / q))"

text \<open>The three branches of \<open>unwarp\<close>, on the clamped coordinate.\<close>

definition unwarp_left :: "FoveationWarp \<Rightarrow> real \<Rightarrow> real option" where
  "unwarp_left w y =
     (case gl_sqrt (- 4 * al w * cl w + 4 * al w * y + bl w * bl w) of
        None \<Rightarrow> None
      | Some r \<Rightarrow> gl_div (r - bl w) (2 * al w))"

definition unwarp_right :: "FoveationWarp \<Rightarrow> real \<Rightarrow> real option" where
  "unwarp_right w y =
     (case gl_sqrt (- 4 * ar w * cr w + 4 * ar w * y + br w * br w) of
        None \<Rightarrow> None
      | Some r \<Rightarrow> gl_div (r - br w) (2 * ar w))"

definition unwarp_middle :: "FoveationWarp \<Rightarrow> real \<Rightarrow> real option" where
  "unwarp_middle w y = gl_div (y - bm w) (am w)"

definition unwarp :: "FoveationWarp \<Rightarrow> real \<Rightarrow> real option" where
  "unwarp w y0 =
     (let y = clamp y0 0 1
      in if y < inv_switch_left w then unwarp_left w y
         else if y > inv_switch_right w then unwarp_right w y
         else unwarp_middle w y)"

text \<open>The overload on \<open>vec2\<close>, with the two uniforms \<open>warp_x\<close> and \<open>warp_y\<close>.\<close>

definition unwarp2 :: "FoveationWarp \<Rightarrow> FoveationWarp \<Rightarrow> vec2 \<Rightarrow> vec2 option" where
  "unwarp2 warp_x warp_y p =
     (case (unwarp warp_x (v2x p), unwarp warp_y (v2y p)) of
        (Some px, Some py) \<Rightarrow> Some (Vec2 px py)
      | _ \<Rightarrow> None)"

text \<open>
  The uniforms and the varying of the shader.  A sampler is the function \<open>texture\<close>
  computes on it, from texture coordinates to a texel; which filter it applies is part
  of the texture state set by \<open>transfer_texture\<close>.
\<close>

record frag_input =
  UVs :: vec2
  syn_rgba :: "vec2 \<Rightarrow> vec4"
  syn_depth :: "vec2 \<Rightarrow> vec4"
  nerf_rgba :: "vec2 \<Rightarrow> vec4"
  nerf_depth :: "vec2 \<Rightarrow> vec4"
  nerf_resolution :: "int \<times> int"
  syn_resolution :: "int \<times> int"
  full_resolution :: "int \<times> int"
  warp_x :: FoveationWarp
  warp_y :: FoveationWarp

text \<open>
  \<open>main\<close> returns \<open>(frag_color, gl_FragDepth)\<close>.  The two pixel sizes and
  \<open>view_coords\<close> are computed by the source and never read; the two reads of the
  neural textures are commented out in the source.
\<close>

definition main_frag :: "frag_input \<Rightarrow> (vec4 \<times> real) option" where
  "main_frag inp =
     (let tex_coords = UVs inp;
          tex_coords = Vec2 (v2x tex_coords) (1 - v2y tex_coords)
      in case unwarp2 (warp_x inp) (warp_y inp) tex_coords of
           None \<Rightarrow> None
         | Some tex_coords \<Rightarrow>
             (let syn = syn_rgba inp tex_coords;
                  sd = v4x (syn_depth inp tex_coords)
              in Some (vec4_of (rgb syn) 1, sd)))"

text \<open>
  The blend state of \<open>present\<close>: \<open>GL_FUNC_ADD\<close> with factors \<open>GL_ONE\<close> and
  \<open>GL_ONE_MINUS_SRC_ALPHA\<close>, for colour and for alpha.
\<close>

definition gl_blend :: "vec4 \<Rightarrow> vec4 \<Rightarrow> vec4" where
  "gl_blend src dst =
     Vec4 (v4x src + v4x dst * (1 - v4w src))
          (v4y src + v4y dst * (1 - v4w src))
          (v4z src + v4z dst * (1 - v4w src))
          (v4w src + v4w dst * (1 - v4w src))"

text \<open>\<open>glClearColor(clear_color.r, clear_color.g, clear_color.b, 1.0f)\<close> in \<open>present\<close>.\<close>

definition glClearColor :: "vec3 \<Rightarrow> vec4" where
  "glClearColor clear_color = Vec4 (v3x clear_color) (v3y clear_color) (v3z clear_color) 1"

text \<open>
  The composite the specification describes, synthetic over neural with the synthetic
  alpha as coverage; used only to compare the shader with it.
\<close>

definition spec_alpha_over :: "vec4 \<Rightarrow> vec4 \<Rightarrow> vec4" where
  "spec_alpha_over syn nerf =
     Vec4 (v4x syn * v4w syn + v4x nerf * (1 - v4w syn))
          (v4y syn * v4w syn + v4y nerf * (1 - v4w syn))
          (v4z syn * v4w syn + v4z nerf * (1 - v4w syn))
          (v4w syn + v4w nerf * (1 - v4w syn))"

text \<open>
  Modelled from the spec: the invariant of \<open>FoveationWarp\<close>; the forward warp it
  speaks of is not in the given sources (the shader has the inverse only).  The warp is a
  left parabola \<open>al x\<^sup>2 + bl x + cl\<close> below \<open>switch_left\<close>, a right parabola
  \<open>ar x\<^sup>2 + br x + cr\<close> above \<open>switch_right\<close> and the line \<open>am x + bm\<close> between
  them.  The invariant says that it is monotonic and continuous across the two segment
  boundaries with a well-defined inverse: the line rises, \<open>inv_switch_left\<close> and
  \<open>inv_switch_right\<close> are its values at the switch points, and a parabola that is in
  use (its range meets \<open>[0, 1]\<close>) is a proper parabola that meets the line at its
  switch point, does not fall there, and takes the value at the outer end of its range
  (\<open>0\<close> on the left, \<open>1\<close> on the right) somewhere.
\<close>

definition warp_invariant :: "FoveationWarp \<Rightarrow> bool" where
  "warp_invariant w \<longleftrightarrow>
     0 < am w
     \<and> switch_left w \<le> switch_right w
     \<and> inv_switch_left w = am w * switch_left w + bm w
     \<and> inv_switch_right w = am w * switch_right w + bm w
     \<and> (0 < inv_switch_left w \<longrightarrow>
          al w \<noteq> 0
          \<and> al w * switch_left w * switch_left w + bl w * switch_left w + cl w = inv_switch_left w
          \<and> 0 \<le> 2 * al w * switch_left w + bl w
          \<and> 0 \<le> bl w * bl w - 4 * al w * cl w)
     \<and> (inv_switch_right w < 1 \<longrightarrow>
          ar w \<noteq> 0
          \<and> ar w * switch_right w * switch_right w + br w * switch_right w + cr w = inv_switch_right w
          \<and> 0 \<le> 2 * ar w * switch_right w + br w
          \<and> 0 \<le> br w * br w - 4 * ar w * cr w + 4 * ar w)"

text \<open>
  The value of the two parabola branches of \<open>unwarp\<close> where they are defined: the larger
  root of \<open>a x\<^sup>2 + b x + c = y\<close>.
\<close>

definition inv_parabola :: "real \<Rightarrow> real \<Rightarrow> real \<Rightarrow> real \<Rightarrow> real" where
  "inv_parabola a b c y = (sqrt (- 4 * a * c + 4 * a * y + b * b) - b) / (2 * a)"

text \<open>The value of \<open>unwarp\<close> on a clamped coordinate.\<close>

definition unwarp_value :: "FoveationWarp \<Rightarrow> real \<Rightarrow> real" where
  "unwarp_value w c =
     (if c < inv_switch_left w then inv_parabola (al w) (bl w) (cl w) c
      else if c > inv_switch_right w then inv_parabola (ar w) (br w) (cr w) c
      else (c - bm w) / am w)"

section \<open>The intersection kernel (syn_world.cu)\<close>

datatype Triangle = Triangle (tri_a: vec3) (tri_b: vec3) (tri_c: vec3)

record Light =
  pos :: vec3

text \<open>
  The two constants of namespace \<open>ngp\<close> the kernel reads; their values are declared
  outside the given sources.
\<close>

record rt_constants =
  MIN_RT_DIST :: real
  MAX_RT_DIST :: real

record render_buffer =
  rgba :: "nat \<Rightarrow> vec4"
  depth :: "nat \<Rightarrow> real"

text \<open>
  The methods \<open>Triangle::ray_intersect\<close> and \<open>Triangle::normal\<close> are declared outside
  the given sources and are arguments of the model: \<open>ray_intersect tri ro rd\<close> and
  \<open>normal tri\<close>.

  One pass of the body of the loop over the triangles, on the pair \<open>(dt, normal)\<close>.
  (A \<open>float\<close> that is not a number fails both comparisons, as an invalid parameter
  does.)
\<close>

definition closest_step ::
  "(Triangle \<Rightarrow> vec3 \<Rightarrow> vec3 \<Rightarrow> real) \<Rightarrow> (Triangle \<Rightarrow> vec3) \<Rightarrow> rt_constants \<Rightarrow>
   (nat \<Rightarrow> Triangle) \<Rightarrow> vec3 \<Rightarrow> vec3 \<Rightarrow> nat \<Rightarrow> real \<times> vec3 \<Rightarrow> real \<times> vec3" where
  "closest_step ray_intersect normal C triangles ro rd k st =
     (let t = ray_intersect (triangles k) ro rd
      in if t < fst st \<and> t > MIN_RT_DIST C then (t, normal (triangles k)) else st)"

text \<open>
  The loop \<open>for (k = 0; k < tri_count; ++k)\<close>.  The local \<open>normal\<close> is declared without
  an initial value; \<open>normal_init\<close> is whatever it holds.
\<close>

definition closest_hit ::
  "(Triangle \<Rightarrow> vec3 \<Rightarrow> vec3 \<Rightarrow> real) \<Rightarrow> (Triangle \<Rightarrow> vec3) \<Rightarrow> rt_constants \<Rightarrow>
   nat \<Rightarrow> (nat \<Rightarrow> Triangle) \<Rightarrow> vec3 \<Rightarrow> vec3 \<Rightarrow> vec3 \<Rightarrow> real \<times> vec3" where
  "closest_hit ray_intersect normal C tri_count triangles ro rd normal_init =
     fold (closest_step ray_intersect normal C triangles ro rd) [0..<tri_count]
       (MAX_RT_DIST C, normal_init)"

text \<open>The thread with index \<open>i\<close> of \<open>gpu_draw_object\<close>.\<close>

definition gpu_draw_object ::
  "(Triangle \<Rightarrow> vec3 \<Rightarrow> vec3 \<Rightarrow> real) \<Rightarrow> (Triangle \<Rightarrow> vec3) \<Rightarrow> rt_constants \<Rightarrow> vec3 \<Rightarrow>
   nat \<Rightarrow> nat \<Rightarrow> nat \<Rightarrow> nat \<Rightarrow> (nat \<Rightarrow> vec3) \<Rightarrow> (nat \<Rightarrow> vec3) \<Rightarrow> (nat \<Rightarrow> Triangle) \<Rightarrow> Light \<Rightarrow>
   nat \<Rightarrow> render_buffer \<Rightarrow> render_buffer" where
  "gpu_draw_object ray_intersect normal C normal_init
       n_elements width height tri_count ray_origins ray_directions triangles sun i buf =
     (if i \<ge> n_elements then buf
      else
        (let buf = buf\<lparr>rgba := (rgba buf)(i := vec4_of (Vec3 0 0 0) 1)\<rparr>;
             buf = buf\<lparr>depth := (depth buf)(i := MAX_RT_DIST C)\<rparr>;
             rd = ray_directions i;
             ro = ray_origins i;
             (dt, nrm) = closest_hit ray_intersect normal C tri_count triangles ro rd normal_init
         in if dt < MAX_RT_DIST C then
              (let ro = vadd ro (vscale dt rd);
                   to_sun = normalize (vsub (pos sun) ro);
                   ndotv = dot nrm to_sun
               in buf\<lparr>rgba := (rgba buf)(i := vec4_of (vscale ndotv (Vec3 1 (2 / 10) 0)) 1)\<rparr>)
            else buf\<lparr>rgba := (rgba buf)(i := vec4_of (Vec3 0 0 0) 1)\<rparr>))"

text \<open>A valid intersection parameter lies strictly between the two constants.\<close>

definition valid_t :: "rt_constants \<Rightarrow> real \<Rightarrow> bool" where
  "valid_t C t \<longleftrightarrow> MIN_RT_DIST C < t \<and> t < MAX_RT_DIST C"

text \<open>
  The shading the specification describes for a hit: \<open>max(0, dot(normal,
  direction_to_light))\<close> times the albedo of the material times the attenuation of the
  shadow sampler; used only to compare the kernel with it.
\<close>

definition spec_direct_lighting :: "vec3 \<Rightarrow> vec3 \<Rightarrow> vec3 \<Rightarrow> real \<Rightarrow> vec4" where
  "spec_direct_lighting nrm to_light albedo attenuation =
     vec4_of (vscale (max 0 (dot nrm to_light) * attenuation) albedo) 1"

section \<open>The per-frame scene synchronisation (engine.cu)\<close>

text \<open>
  An object, a material or a light is its dirty flag and the rest of its members.
\<close>

record 'a entity =
  is_dirty :: bool
  body :: 'a

datatype gpu_event =
    UploadWorld
  | UploadMaterials
  | UploadLights
  | RaytracerResetAccumulation
  | TestbedResetAccumulation

text \<open>
  The members of \<open>Engine\<close> that \<open>update_world_objects\<close> reads and writes.  \<open>m_testbed\<close>
  holds whether the pointer is non-null.  The device arrays hold what was last copied
  into them; \<open>gpu_log\<close> records each \<open>resize_and_copy_from_host\<close> and each
  \<open>reset_accumulation\<close>.  The CUDA calls are taken to succeed (a failure throws out of
  the frame).
\<close>

record ('o, 'm, 'l, 't) engine =
  m_is_dirty :: bool
  m_testbed :: bool
  m_enable_animations :: bool
  m_anim_speed :: real
  m_objects :: "'o entity list"
  m_materials :: "'m entity list"
  m_lights :: "'l entity list"
  d_world :: "'t list"
  d_materials :: "'m entity list"
  d_lights :: "'l entity list"
  gpu_log :: "gpu_event list"

text \<open>
  The loop \<open>for (auto& m : xs) { is_any_obj_dirty = is_any_obj_dirty || m.is_dirty;
  m.is_dirty = false; }\<close>, from the flag accumulated so far.
\<close>

fun scan_dirty :: "bool \<Rightarrow> 'a entity list \<Rightarrow> bool \<times> 'a entity list" where
  "scan_dirty acc [] = (acc, [])"
| "scan_dirty acc (m # ms) =
     (let acc' = (acc \<or> is_dirty m);
          m' = m\<lparr>is_dirty := False\<rparr>;
          (r, ms') = scan_dirty acc' ms
      in (r, m' # ms'))"

text \<open>
  The loop that rebuilds \<open>h_world\<close>: each object is advanced by \<open>next_frame\<close> when
  animations are enabled and then packed into an \<open>ObjectTransform\<close>.  \<open>next_frame\<close>
  and the members the \<open>ObjectTransform\<close> is built from are declared outside the given
  sources and are arguments of the model.
\<close>

fun build_world ::
  "(real \<Rightarrow> 'o entity \<Rightarrow> 'o entity) \<Rightarrow> ('o entity \<Rightarrow> 't) \<Rightarrow> bool \<Rightarrow> real \<Rightarrow> 'o entity list
   \<Rightarrow> 'o entity list \<times> 't list" where
  "build_world next_frame object_transform anim speed [] = ([], [])"
| "build_world next_frame object_transform anim speed (obj # objs) =
     (let obj' = (if anim then next_frame speed obj else obj);
          h = object_transform obj';
          (objs', hs) = build_world next_frame object_transform anim speed objs
      in (obj' # objs', h # hs))"

fun animate_lights ::
  "(real \<Rightarrow> 'l entity \<Rightarrow> 'l entity) \<Rightarrow> bool \<Rightarrow> real \<Rightarrow> 'l entity list \<Rightarrow> 'l entity list" where
  "animate_lights next_frame anim speed [] = []"
| "animate_lights next_frame anim speed (obj # objs) =
     (if anim then next_frame speed obj else obj) # animate_lights next_frame anim speed objs"

text \<open>
  \<open>update_world_objects\<close> is three blocks of the same shape, one per category, which
  pass on the local \<open>needs_reset\<close> and the engine, and the closing test.
\<close>

definition sync_objects ::
  "(real \<Rightarrow> 'o entity \<Rightarrow> 'o entity) \<Rightarrow> ('o entity \<Rightarrow> 't) \<Rightarrow>
   bool \<times> ('o, 'm, 'l, 't) engine \<Rightarrow> bool \<times> ('o, 'm, 'l, 't) engine" where
  "sync_objects obj_next_frame object_transform st =
     (let (needs_reset, e) = st;
          (is_any_obj_dirty, objs) = scan_dirty False (m_objects e);
          e = e\<lparr>m_objects := objs\<rparr>
      in if is_any_obj_dirty \<or> m_enable_animations e then
           (let (objs', h_world) =
                  build_world obj_next_frame object_transform
                    (m_enable_animations e) (m_anim_speed e) (m_objects e)
            in (True, e\<lparr>m_objects := objs', d_world := h_world,
                         gpu_log := gpu_log e @ [UploadWorld]\<rparr>))
         else (needs_reset, e))"

definition sync_materials ::
  "bool \<times> ('o, 'm, 'l, 't) engine \<Rightarrow> bool \<times> ('o, 'm, 'l, 't) engine" where
  "sync_materials st =
     (let (needs_reset, e) = st;
          (is_any_obj_dirty, mats) = scan_dirty False (m_materials e);
          e = e\<lparr>m_materials := mats\<rparr>
      in if is_any_obj_dirty then
           (True, e\<lparr>d_materials := m_materials e,
                    gpu_log := gpu_log e @ [UploadMaterials]\<rparr>)
         else (needs_reset, e))"

definition sync_lights ::
  "(real \<Rightarrow> 'l entity \<Rightarrow> 'l entity) \<Rightarrow>
   bool \<times> ('o, 'm, 'l, 't) engine \<Rightarrow> bool \<times> ('o, 'm, 'l, 't) engine" where
  "sync_lights light_next_frame st =
     (let (needs_reset, e) = st;
          (is_any_obj_dirty, ls) = scan_dirty False (m_lights e);
          e = e\<lparr>m_lights := ls\<rparr>
      in if is_any_obj_dirty \<or> m_enable_animations e then
           (let ls' = animate_lights light_next_frame
                        (m_enable_animations e) (m_anim_speed e) (m_lights e)
            in (True, e\<lparr>m_lights := ls', d_lights := ls',
                         gpu_log := gpu_log e @ [UploadLights]\<rparr>))
         else (needs_reset, e))"

definition update_world_objects ::
  "(real \<Rightarrow> 'o entity \<Rightarrow> 'o entity) \<Rightarrow> ('o entity \<Rightarrow> 't) \<Rightarrow> (real \<Rightarrow> 'l entity \<Rightarrow> 'l entity) \<Rightarrow>
   ('o, 'm, 'l, 't) engine \<Rightarrow> ('o, 'm, 'l, 't) engine" where
  "update_world_objects obj_next_frame object_transform light_next_frame e0 =
     (let (needs_reset, e) =
            sync_lights light_next_frame
              (sync_materials (sync_objects obj_next_frame object_transform (False, e0)));
          needs_reset = (needs_reset \<or> m_is_dirty e)
      in if needs_reset \<and> m_testbed e
         then e\<lparr>gpu_log := gpu_log e @ [RaytracerResetAccumulation, TestbedResetAccumulation]\<rparr>
         else e)"

text \<open>Counting in the log, and the entities that are dirty.\<close>

definition uploads :: "gpu_event list \<Rightarrow> nat" where
  "uploads evs = length (filter (\<lambda>ev. ev \<in> {UploadWorld, UploadMaterials, UploadLights}) evs)"

definition resets :: "gpu_event list \<Rightarrow> nat" where
  "resets evs = length (filter (\<lambda>ev. ev = RaytracerResetAccumulation) evs)"

definition any_dirty :: "'a entity list \<Rightarrow> bool" where
  "any_dirty es \<longleftrightarrow> list_ex is_dirty es"

definition dirty_count :: "('o, 'm, 'l, 't) engine \<Rightarrow> nat" where
  "dirty_count e =
     length (filter is_dirty (m_objects e)) + length (filter is_dirty (m_materials e))
       + length (filter is_dirty (m_lights e))"

definition needs_reset_of :: "('o, 'm, 'l, 't) engine \<Rightarrow> bool" where
  "needs_reset_of e \<longleftrightarrow>
     any_dirty (m_objects e) \<or> any_dirty (m_materials e) \<or> any_dirty (m_lights e)
     \<or> m_enable_animations e \<or> m_is_dirty e"

definition all_clean :: "('o, 'm, 'l, 't) engine \<Rightarrow> bool" where
  "all_clean e \<longleftrightarrow>
     \<not> any_dirty (m_objects e) \<and> \<not> any_dirty (m_materials e) \<and> \<not> any_dirty (m_lights e)"

section \<open>Concrete inputs\<close>

definition env0 :: gl_env where
  "env0 = \<lparr>glfwInit_ok = True, glfwCreateWindow_result = Some 7, glewInit_ok = True,
            gl_version_major = 3, gl_version_minor = 3, glCreateProgram_result = 1,
            glGenVertexArrays_result = 1\<rparr>"

definition d0 :: display where
  "d0 = \<lparr>m_is_init = True, m_glfw_window = Some 5, m_img_count = 2, m_img_count_max = 3,
          m_writing_buffer_size = 0, m_blit_program = 1, m_blit_vao = 1, trace = []\<rparr>"

text \<open>
  A scene for the kernel: two triangles parallel to the plane \<open>z = 0\<close>, at heights 0 and
  1, seen from \<open>(1/5, 1/5, 5)\<close>.  \<open>plane_intersect\<close> and \<open>up_normal\<close> stand in for
  the two methods of \<open>Triangle\<close> on these inputs: the vertical line through the eye
  crosses both triangles, at the distance \<open>plane_intersect\<close> gives when looking down,
  and behind the eye when looking up; both triangles have the normal \<open>(0, 0, 1)\<close>.
\<close>

definition C0 :: rt_constants where
  "C0 = \<lparr>MIN_RT_DIST = 1 / 1000, MAX_RT_DIST = 100\<rparr>"

definition tris0 :: "nat \<Rightarrow> Triangle" where
  "tris0 k = (if k = 0 then Triangle (Vec3 0 0 0) (Vec3 1 0 0) (Vec3 0 1 0)
              else Triangle (Vec3 0 0 1) (Vec3 1 0 1) (Vec3 0 1 1))"

definition plane_intersect :: "Triangle \<Rightarrow> vec3 \<Rightarrow> vec3 \<Rightarrow> real" where
  "plane_intersect tri ro rd = (v3z (tri_a tri) - v3z ro) / v3z rd"

definition up_normal :: "Triangle \<Rightarrow> vec3" where
  "up_normal tri = Vec3 0 0 1"

definition eye0 :: vec3 where
  "eye0 = Vec3 (1 / 5) (1 / 5) 5"

definition buf0 :: render_buffer where
  "buf0 = \<lparr>rgba = (\<lambda>i. Vec4 0 0 0 0), depth = (\<lambda>i. 0)\<rparr>"

text \<open>
  Engines with one object, one material and one light, whose remaining members are a
  number; the animation step leaves an entity as it is and the \<open>ObjectTransform\<close> of
  an object is its number.
\<close>

definition e_clean :: "(nat, nat, nat, nat) engine" where
  "e_clean = \<lparr>m_is_dirty = False, m_testbed = True, m_enable_animations = False,
               m_anim_speed = 1,
               m_objects = [\<lparr>is_dirty = False, body = 1\<rparr>],
               m_materials = [\<lparr>is_dirty = False, body = 2\<rparr>],
               m_lights = [\<lparr>is_dirty = False, body = 3\<rparr>],
               d_world = [1],
               d_materials = [\<lparr>is_dirty = False, body = 2\<rparr>],
               d_lights = [\<lparr>is_dirty = False, body = 3\<rparr>],
               gpu_log = []\<rparr>"

definition e_one :: "(nat, nat, nat, nat) engine" where
  "e_one = e_clean\<lparr>m_lights := [\<lparr>is_dirty = True, body = 4\<rparr>]\<rparr>"

definition e_all :: "(nat, nat, nat, nat) engine" where
  "e_all = e_clean\<lparr>m_objects := [\<lparr>is_dirty = True, body = 5\<rparr>],
                   m_materials := [\<lparr>is_dirty = False, body = 2\<rparr>, \<lparr>is_dirty = True, body = 6\<rparr>],
                   m_lights := [\<lparr>is_dirty = True, body = 4\<rparr>]\<rparr>"

definition e_anim :: "(nat, nat, nat, nat) engine" where
  "e_anim = e_clean\<lparr>m_enable_animations := True\<rparr>"

definition e_redraw :: "(nat, nat, nat, nat) engine" where
  "e_redraw = e_clean\<lparr>m_is_dirty := True\<rparr>"

definition keep :: "real \<Rightarrow> nat entity \<Rightarrow> nat entity" where
  "keep speed x = x"

text \<open>An animation step that changes an entity and leaves its flag alone.\<close>

definition advance :: "real \<Rightarrow> nat entity \<Rightarrow> nat entity" where
  "advance speed x = x\<lparr>body := body x + 1\<rparr>"

text \<open>
  Two warps: the identity-like warp with switch points at 0 and 1, which \<open>Engine\<close>
  passes to the display (\<open>view.foveation = {}\<close>), and a warp with both parabolas in use.
\<close>

definition identity_warp :: FoveationWarp where
  "identity_warp = \<lparr>al = 0, bl = 0, cl = 0, am = 1, bm = 0, ar = 0, br = 0, cr = 0,
                     switch_left = 0, switch_right = 1,
                     inv_switch_left = 0, inv_switch_right = 1\<rparr>"

definition curved_warp :: FoveationWarp where
  "curved_warp = \<lparr>al = 1, bl = 0, cl = 0, am = 1, bm = - (1 / 4), ar = 4, br = - 5, cr = 2,
                   switch_left = 1 / 2, switch_right = 3 / 4,
                   inv_switch_left = 1 / 4, inv_switch_right = 1 / 2\<rparr>"

text \<open>
  A fragment at the centre of the display whose synthetic texel is fully transparent and
  whose neural texel is opaque white.
\<close>

definition frag0 :: frag_input where
  "frag0 = \<lparr>UVs = Vec2 (1 / 2) (1 / 2),
             syn_rgba = (\<lambda>p. Vec4 0 0 0 0),
             syn_depth = (\<lambda>p. Vec4 (1 / 2) 0 0 0),
             nerf_rgba = (\<lambda>p. Vec4 1 1 1 1),
             nerf_depth = (\<lambda>p. Vec4 (1 / 4) 0 0 0),
             nerf_resolution = (256, 256),
             syn_resolution = (64, 64),
             full_resolution = (512, 512),
             warp_x = identity_warp,
             warp_y = identity_warp\<rparr>"

definition gl0 :: gl_textures where
  "gl0 = \<lparr>active_unit = 0, unit_binding = (\<lambda>u. 0),
           parameters = (\<lambda>t. \<lparr>wrap_s = GL_CLAMP_TO_EDGE, wrap_t = GL_CLAMP_TO_EDGE,
                                 min_filter = GL_LINEAR, mag_filter = GL_LINEAR\<rparr>)\<rparr>"

section \<open>Recording counters\<close>

text \<open>
  C6. With \<open>m_img_count_max = 3\<close> and the counter at zero, the first three successive
  calls of \<open>advance_image_count\<close> return true and the fourth returns false.
\<close>

theorem advance_image_count_stops_at_bound:
  "fst (advance_calls 4 (d\<lparr>m_img_count := 0, m_img_count_max := 3\<rparr>))
     = [True, True, True, False]"
  by (simp add: numeral_eq_Suc advance_image_count_def)

lemma recording_loop_images:
  "m_img_count d \<le> m_img_count_max d + 1 \<Longrightarrow>
   images_written (recording_loop fp fb d)
     = images_written d @ [m_img_count d + 1 .. m_img_count_max d + 1]"
proof (induction fp fb d rule: recording_loop.induct)
  case (1 fp fb d)
  show ?case
  proof (cases "m_img_count d > m_img_count_max d")
    case True
    with "1.prems" have "m_img_count d = m_img_count_max d + 1" by simp
    with True show ?thesis
      by (subst recording_loop.simps) (simp add: frame_result_def save_image_def)
  next
    case False
    let ?d' = "snd (save_image fp fb d)"
    have fr: "frame_result True False True fp fb d = (True, ?d')"
      using False by (simp add: frame_result_def save_image_def Let_def)
    have c: "m_img_count ?d' = m_img_count d + 1" "m_img_count_max ?d' = m_img_count_max d"
      using False by (simp_all add: save_image_def Let_def)
    have w: "images_written ?d' = images_written d @ [m_img_count d + 1]"
      using False by (simp add: save_image_def Let_def images_written_def)
    have "images_written (recording_loop fp fb ?d')
            = images_written ?d' @ [m_img_count ?d' + 1 .. m_img_count_max ?d' + 1]"
      using "1.IH"[OF fr[symmetric] refl] False c by simp
    moreover have "recording_loop fp fb d = recording_loop fp fb ?d'"
      by (subst recording_loop.simps) (simp add: fr)
    moreover have "[m_img_count d + 1 .. m_img_count_max d + 1]
        = (m_img_count d + 1) # [m_img_count d + 1 + 1 .. m_img_count_max d + 1]"
      using False by (simp add: upto_rec1)
    ultimately show ?thesis using c w by simp
  qed
qed

lemma recording_loop_count:
  assumes N: "0 \<le> N"
  shows "length (images_written
           (recording_loop fp fb (d\<lparr>m_img_count := 0, m_img_count_max := N, trace := []\<rparr>)))
         = nat N + 1"
proof -
  let ?d = "d\<lparr>m_img_count := 0, m_img_count_max := N, trace := []\<rparr>"
  have "images_written (recording_loop fp fb ?d) = images_written ?d @ [1 .. N + 1]"
    using recording_loop_images[of ?d fp fb] N by simp
  then show ?thesis using N by (simp add: images_written_def)
qed

text \<open>
  C7. While recording, \<open>save_image\<close> numbers the files with a strictly increasing
  counter and the loop stops once the counter has passed \<open>m_img_count_max\<close>; but the
  guard compares the counter before it is incremented with \<open>>\<close>, so with the bound
  3 four calls write the files 1 to 4 and only the fifth returns false.
\<close>

theorem save_image_writes_past_bound:
  "fst (save_calls 5 fp fb (d\<lparr>m_img_count := 0, m_img_count_max := 3, trace := []\<rparr>))
     = [True, True, True, True, False]
   \<and> images_written (snd (save_calls 5 fp fb
        (d\<lparr>m_img_count := 0, m_img_count_max := 3, trace := []\<rparr>))) = [1, 2, 3, 4]
   \<and> images_written (recording_loop fp fb
        (d\<lparr>m_img_count := 0, m_img_count_max := 3, trace := []\<rparr>)) = [1, 2, 3, 4]"
proof -
  let ?d = "d\<lparr>m_img_count := 0, m_img_count_max := 3, trace := []\<rparr>"
  have calls: "fst (save_calls 5 fp fb ?d) = [True, True, True, True, False]"
    by (simp add: numeral_eq_Suc save_image_def Let_def)
  have written: "images_written (snd (save_calls 5 fp fb ?d)) = [1, 2, 3, 4]"
    by (simp add: numeral_eq_Suc save_image_def Let_def images_written_def)
  have "images_written (recording_loop fp fb ?d) = images_written ?d @ [1 .. 3 + 1]"
    using recording_loop_images[of ?d fp fb] by simp
  moreover have "[1 .. 3 + 1] = [1, 2, 3, 4::int]"
    by (simp add: upto_rec1)
  ultimately have "images_written (recording_loop fp fb ?d) = [1, 2, 3, 4]"
    by (simp add: images_written_def)
  with calls written show ?thesis by simp
qed

section \<open>The initialisation flag\<close>

text \<open>
  C10. \<open>init_window\<close> is guarded by the static flag: on an initialised display it
  returns \<open>nullptr\<close> and changes nothing (no call is added to the trace); \<open>destroy\<close>
  resets the flag and the window, and a later \<open>init_window\<close> runs the whole
  initialisation again and returns the new window, provided the window system answers
  as \<open>init_glfw\<close> requires.
\<close>

theorem init_window_guarded_by_static_flag:
  assumes "m_is_init d" and "gl_env_ok env"
  shows "init_window resw resh frag_fp env d = (Inr None, d)
    \<and> m_is_init (destroy d) = False
    \<and> m_glfw_window (destroy d) = None
    \<and> (\<exists>win d'. init_window resw resh frag_fp env (destroy d) = (Inr (Some win), d')
          \<and> glfwCreateWindow_result env = Some win
          \<and> m_is_init d' \<and> m_glfw_window d' = Some win \<and> m_img_count d' = 0
          \<and> trace d' = trace (destroy d) @ [InitGlfw resw resh, InitOpenglShaders frag_fp, InitImgui])"
proof -
  have 1: "init_window resw resh frag_fp env d = (Inr None, d)"
    using assms(1) by (simp add: init_window_def)
  have 2: "m_is_init (destroy d) = False" "m_glfw_window (destroy d) = None"
    using assms(1) by (simp_all add: destroy_def)
  from assms(2) obtain win where win: "glfwCreateWindow_result env = Some win"
    by (auto simp: gl_env_ok_def)
  have g: "init_glfw resw resh env (destroy d)
      = (Inr (Some win), (destroy d)\<lparr>trace := trace (destroy d) @ [InitGlfw resw resh],
                                     m_glfw_window := Some win\<rparr>)"
    using assms(2) win by (simp add: init_glfw_def gl_env_ok_def Let_def)
  have 3: "\<exists>d'. init_window resw resh frag_fp env (destroy d) = (Inr (Some win), d')
          \<and> m_is_init d' \<and> m_glfw_window d' = Some win \<and> m_img_count d' = 0
          \<and> trace d' = trace (destroy d) @ [InitGlfw resw resh, InitOpenglShaders frag_fp, InitImgui]"
    using 2 by (simp add: init_window_def g init_opengl_shaders_def init_imgui_def Let_def)
  from 1 2 3 win show ?thesis by blast
qed

theorem init_window_guarded_witness:
  "m_is_init d0 \<and> gl_env_ok env0
   \<and> init_window 1280 720 ''main.frag'' env0 d0 = (Inr None, d0)
   \<and> m_is_init (destroy d0) = False
   \<and> fst (init_window 1280 720 ''main.frag'' env0 (destroy d0)) = Inr (Some 7)"
proof -
  have h1: "m_is_init d0" by (simp add: d0_def)
  have h2: "gl_env_ok env0" by (simp add: env0_def gl_env_ok_def)
  from init_window_guarded_by_static_flag[OF h1 h2, of 1280 720 "''main.frag''"]
  show ?thesis using h1 h2 by (auto simp: env0_def)
qed

section \<open>The closest hit\<close>

lemma closest_fold_invariant:
  fixes ray_intersect normal C triangles ro rd normal_init
  defines "t \<equiv> \<lambda>k. ray_intersect (triangles k) ro rd"
  assumes run: "fold (closest_step ray_intersect normal C triangles ro rd) [0..<n]
                  (MAX_RT_DIST C, normal_init) = (dt, nrm)"
  shows "if \<exists>k<n. valid_t C (t k)
         then \<exists>k<n. valid_t C (t k) \<and> dt = t k \<and> nrm = normal (triangles k)
                \<and> (\<forall>j<n. valid_t C (t j) \<longrightarrow> dt \<le> t j)
                \<and> (\<forall>j<k. \<not> (valid_t C (t j) \<and> t j = dt))
         else dt = MAX_RT_DIST C \<and> nrm = normal_init"
  using run
proof (induction n arbitrary: dt nrm)
  case 0
  then show ?case by simp
next
  case (Suc n)
  obtain dt0 nrm0 where prev:
    "fold (closest_step ray_intersect normal C triangles ro rd) [0..<n]
       (MAX_RT_DIST C, normal_init) = (dt0, nrm0)"
    by (cases "fold (closest_step ray_intersect normal C triangles ro rd) [0..<n]
                 (MAX_RT_DIST C, normal_init)") auto
  note IH = Suc.IH[OF prev]
  have step: "(dt, nrm) = (if t n < dt0 \<and> t n > MIN_RT_DIST C then (t n, normal (triangles n))
                           else (dt0, nrm0))"
  proof -
    have "(dt, nrm) = closest_step ray_intersect normal C triangles ro rd n (dt0, nrm0)"
      using Suc.prems prev by simp
    then show ?thesis by (simp add: closest_step_def t_def Let_def)
  qed
  show ?case
  proof (cases "\<exists>k<n. valid_t C (t k)")
    case False
    with IH have d0: "dt0 = MAX_RT_DIST C" "nrm0 = normal_init" by simp_all
    show ?thesis
    proof (cases "valid_t C (t n)")
      case True
      with step d0 have "dt = t n" "nrm = normal (triangles n)"
        by (simp_all add: valid_t_def)
      moreover have "\<forall>j<Suc n. valid_t C (t j) \<longrightarrow> t n \<le> t j"
        using False by (auto simp: less_Suc_eq)
      moreover have "\<forall>j<n. \<not> (valid_t C (t j) \<and> t j = t n)"
        using False by auto
      ultimately show ?thesis using True by auto
    next
      case nv: False
      with step d0 have "dt = MAX_RT_DIST C" "nrm = normal_init"
        by (auto simp: valid_t_def)
      moreover have "\<not> (\<exists>k<Suc n. valid_t C (t k))"
        using False nv by (auto simp: less_Suc_eq)
      ultimately show ?thesis by (simp only: if_False)
    qed
  next
    case True
    with IH obtain k where k: "k < n" "valid_t C (t k)" "dt0 = t k" "nrm0 = normal (triangles k)"
      "\<forall>j<n. valid_t C (t j) \<longrightarrow> dt0 \<le> t j" "\<forall>j<k. \<not> (valid_t C (t j) \<and> t j = dt0)"
      by auto
    have ex: "\<exists>k<Suc n. valid_t C (t k)" using True by (auto simp: less_Suc_eq)
    show ?thesis
    proof (cases "t n < dt0 \<and> t n > MIN_RT_DIST C")
      case better: True
      with step have r: "dt = t n" "nrm = normal (triangles n)" by simp_all
      have v: "valid_t C (t n)" using better k(2,3) by (simp add: valid_t_def)
      have "\<forall>j<Suc n. valid_t C (t j) \<longrightarrow> t n \<le> t j"
        using better k(5) by (force simp: less_Suc_eq)
      moreover have "\<forall>j<n. \<not> (valid_t C (t j) \<and> t j = t n)"
        using better k(5) by force
      ultimately have "n < Suc n \<and> valid_t C (t n) \<and> dt = t n \<and> nrm = normal (triangles n)
         \<and> (\<forall>j<Suc n. valid_t C (t j) \<longrightarrow> dt \<le> t j) \<and> (\<forall>j<n. \<not> (valid_t C (t j) \<and> t j = dt))"
        using r v by simp
      then show ?thesis using ex by (simp only: if_True) blast
    next
      case keep: False
      with step have r: "dt = dt0" "nrm = nrm0" by simp_all
      have "\<forall>j<Suc n. valid_t C (t j) \<longrightarrow> dt0 \<le> t j"
        using keep k(5) by (auto simp: less_Suc_eq valid_t_def)
      then have "k < Suc n \<and> valid_t C (t k) \<and> dt = t k \<and> nrm = normal (triangles k)
         \<and> (\<forall>j<Suc n. valid_t C (t j) \<longrightarrow> dt \<le> t j) \<and> (\<forall>j<k. \<not> (valid_t C (t j) \<and> t j = dt))"
        using r k by simp
      then show ?thesis using ex by (simp only: if_True) blast
    qed
  qed
qed

lemma closest_hit_some:
  assumes ex: "\<exists>k<tri_count. valid_t C (ray_intersect (triangles k) ro rd)"
  shows "\<exists>k<tri_count. valid_t C (ray_intersect (triangles k) ro rd)
          \<and> fst (closest_hit ray_intersect normal C tri_count triangles ro rd normal_init)
              = ray_intersect (triangles k) ro rd
          \<and> snd (closest_hit ray_intersect normal C tri_count triangles ro rd normal_init)
              = normal (triangles k)
          \<and> (\<forall>j<tri_count. valid_t C (ray_intersect (triangles j) ro rd)
                \<longrightarrow> ray_intersect (triangles k) ro rd \<le> ray_intersect (triangles j) ro rd)
          \<and> (\<forall>j<k. ray_intersect (triangles j) ro rd \<noteq> ray_intersect (triangles k) ro rd)"
proof -
  obtain dt nrm where r:
    "closest_hit ray_intersect normal C tri_count triangles ro rd normal_init = (dt, nrm)"
    by (cases "closest_hit ray_intersect normal C tri_count triangles ro rd normal_init") auto
  note inv = closest_fold_invariant[OF r[unfolded closest_hit_def]]
  from inv ex obtain k where k: "k < tri_count" "valid_t C (ray_intersect (triangles k) ro rd)"
      "dt = ray_intersect (triangles k) ro rd" "nrm = normal (triangles k)"
      "\<forall>j<tri_count. valid_t C (ray_intersect (triangles j) ro rd) \<longrightarrow> dt \<le> ray_intersect (triangles j) ro rd"
      "\<forall>j<k. \<not> (valid_t C (ray_intersect (triangles j) ro rd) \<and> ray_intersect (triangles j) ro rd = dt)"
    by (simp only: if_True) blast
  have first: "\<forall>j<k. ray_intersect (triangles j) ro rd \<noteq> ray_intersect (triangles k) ro rd"
    using k(2,3,6) by metis
  show ?thesis
    apply (rule exI[of _ k])
    using k(1,2,5) first by (simp add: r k(3)[symmetric] k(4))
qed

lemma closest_hit_none:
  assumes "\<not> (\<exists>k<tri_count. valid_t C (ray_intersect (triangles k) ro rd))"
  shows "closest_hit ray_intersect normal C tri_count triangles ro rd normal_init
          = (MAX_RT_DIST C, normal_init)"
proof -
  obtain dt nrm where r:
    "closest_hit ray_intersect normal C tri_count triangles ro rd normal_init = (dt, nrm)"
    by (cases "closest_hit ray_intersect normal C tri_count triangles ro rd normal_init") auto
  from closest_fold_invariant[OF r[unfolded closest_hit_def]] assms
  have "dt = MAX_RT_DIST C \<and> nrm = normal_init" by (simp only: if_False)
  with r show ?thesis by simp
qed

lemma closest_hit_minimum:
  assumes "\<exists>k<tri_count. valid_t C (ray_intersect (triangles k) ro rd)"
  shows "fst (closest_hit ray_intersect normal C tri_count triangles ro rd normal_init)
           = Min {ray_intersect (triangles k) ro rd | k.
                    k < tri_count \<and> valid_t C (ray_intersect (triangles k) ro rd)}
       \<and> (\<exists>k<tri_count.
             ray_intersect (triangles k) ro rd
               = fst (closest_hit ray_intersect normal C tri_count triangles ro rd normal_init)
           \<and> (\<forall>j<k. ray_intersect (triangles j) ro rd \<noteq> ray_intersect (triangles k) ro rd)
           \<and> snd (closest_hit ray_intersect normal C tri_count triangles ro rd normal_init)
               = normal (triangles k))"
proof -
  let ?t = "\<lambda>k. ray_intersect (triangles k) ro rd"
  let ?S = "{?t k | k. k < tri_count \<and> valid_t C (?t k)}"
  let ?r = "closest_hit ray_intersect normal C tri_count triangles ro rd normal_init"
  from assms
    closest_hit_some[where tri_count = tri_count and C = C and ray_intersect = ray_intersect
      and triangles = triangles and ro = ro and rd = rd and normal = normal and normal_init = normal_init]
  obtain k where k: "k < tri_count" "valid_t C (?t k)" "fst ?r = ?t k" "snd ?r = normal (triangles k)"
      "\<forall>j<tri_count. valid_t C (?t j) \<longrightarrow> ?t k \<le> ?t j" "\<forall>j<k. ?t j \<noteq> ?t k"
    by blast
  have fin: "finite ?S" by simp
  have mem: "?t k \<in> ?S" using k(1,2) by blast
  have le: "\<And>y. y \<in> ?S \<Longrightarrow> ?t k \<le> y" using k(5) by blast
  have "Min ?S = ?t k" by (rule Min_eqI[OF fin le mem])
  with k show ?thesis by metis
qed

lemma scene0_params:
  "plane_intersect (tris0 0) eye0 (Vec3 0 0 (- 1)) = 5"
  "plane_intersect (tris0 (Suc 0)) eye0 (Vec3 0 0 (- 1)) = 4"
  "plane_intersect (tris0 0) eye0 (Vec3 0 0 1) = - 5"
  "plane_intersect (tris0 (Suc 0)) eye0 (Vec3 0 0 1) = - 4"
  by (simp_all add: plane_intersect_def tris0_def eye0_def)

lemma scene0_down:
  "closest_hit plane_intersect up_normal C0 2 tris0 eye0 (Vec3 0 0 (- 1)) n = (4, Vec3 0 0 1)"
  by (simp add: closest_hit_def closest_step_def numeral_2_eq_2 scene0_params C0_def up_normal_def)

lemma scene0_up:
  "closest_hit plane_intersect up_normal C0 2 tris0 eye0 (Vec3 0 0 1) n = (100, n)"
  by (simp add: closest_hit_def closest_step_def numeral_2_eq_2 scene0_params C0_def up_normal_def)

section \<open>What the kernel writes\<close>

lemma gpu_draw_object_hit:
  assumes i: "i < n_elements"
    and ex: "\<exists>k<tri_count. valid_t C (ray_intersect (triangles k) (ray_origins i) (ray_directions i))"
  shows "gpu_draw_object ray_intersect normal C normal_init n_elements width height tri_count
           ray_origins ray_directions triangles sun i buf
       = (case closest_hit ray_intersect normal C tri_count triangles
                 (ray_origins i) (ray_directions i) normal_init of
            (dt, nrm) \<Rightarrow>
              buf\<lparr>rgba := (rgba buf)
                     (i := vec4_of (vscale (dot nrm (normalize (vsub (pos sun)
                              (vadd (ray_origins i) (vscale dt (ray_directions i))))))
                            (Vec3 1 (2 / 10) 0)) 1),
                  depth := (depth buf)(i := MAX_RT_DIST C)\<rparr>)"
proof -
  obtain dt nrm where r: "closest_hit ray_intersect normal C tri_count triangles
                 (ray_origins i) (ray_directions i) normal_init = (dt, nrm)"
    by (cases "closest_hit ray_intersect normal C tri_count triangles
                 (ray_origins i) (ray_directions i) normal_init") auto
  from ex closest_hit_some[where tri_count = tri_count and C = C and ray_intersect = ray_intersect
      and triangles = triangles and ro = "ray_origins i" and rd = "ray_directions i"
      and normal = normal and normal_init = normal_init]
  obtain k where "valid_t C (ray_intersect (triangles k) (ray_origins i) (ray_directions i))"
     "fst (closest_hit ray_intersect normal C tri_count triangles
                 (ray_origins i) (ray_directions i) normal_init)
       = ray_intersect (triangles k) (ray_origins i) (ray_directions i)"
    by blast
  then have lt: "dt < MAX_RT_DIST C" using r by (simp add: valid_t_def)
  show ?thesis using i lt by (simp add: gpu_draw_object_def r Let_def)
qed

lemma gpu_draw_object_miss:
  assumes i: "i < n_elements"
    and no: "\<not> (\<exists>k<tri_count. valid_t C (ray_intersect (triangles k) (ray_origins i) (ray_directions i)))"
  shows "gpu_draw_object ray_intersect normal C normal_init n_elements width height tri_count
           ray_origins ray_directions triangles sun i buf
       = buf\<lparr>rgba := (rgba buf)(i := Vec4 0 0 0 1), depth := (depth buf)(i := MAX_RT_DIST C)\<rparr>"
proof -
  from no closest_hit_none[where tri_count = tri_count and C = C and ray_intersect = ray_intersect
      and triangles = triangles and ro = "ray_origins i" and rd = "ray_directions i"
      and normal = normal and normal_init = normal_init]
  have "closest_hit ray_intersect normal C tri_count triangles
          (ray_origins i) (ray_directions i) normal_init = (MAX_RT_DIST C, normal_init)"
    by blast
  then show ?thesis using i by (simp add: gpu_draw_object_def Let_def vec4_of_def)
qed

text \<open>
  C2 (as amended).  For a pixel whose ray hits a triangle, the kernel writes the colour
  \<open>ndotv * (1, 0.2, 0)\<close> with alpha 1, where \<open>ndotv\<close> is the dot product, not clamped
  at zero, of the normal of the closest triangle with the unit direction from the hit
  point to the light; the depth of the pixel is \<open>MAX_RT_DIST\<close>.
\<close>

theorem hit_writes_unclamped_diffuse:
  assumes "i < n_elements"
    and "\<exists>k<tri_count. valid_t C (ray_intersect (triangles k) (ray_origins i) (ray_directions i))"
  shows "rgba (gpu_draw_object ray_intersect normal C normal_init n_elements width height tri_count
                 ray_origins ray_directions triangles sun i buf) i
           = vec4_of
               (vscale
                  (dot (snd (closest_hit ray_intersect normal C tri_count triangles
                               (ray_origins i) (ray_directions i) normal_init))
                       (normalize (vsub (pos sun)
                          (vadd (ray_origins i)
                             (vscale (fst (closest_hit ray_intersect normal C tri_count triangles
                                             (ray_origins i) (ray_directions i) normal_init))
                                (ray_directions i))))))
                  (Vec3 1 (2 / 10) 0)) 1
       \<and> depth (gpu_draw_object ray_intersect normal C normal_init n_elements width height tri_count
                 ray_origins ray_directions triangles sun i buf) i
           = MAX_RT_DIST C"
proof -
  from assms gpu_draw_object_hit[where i = i and n_elements = n_elements
      and tri_count = tri_count and C = C and ray_intersect = ray_intersect
      and triangles = triangles and ray_origins = ray_origins and ray_directions = ray_directions
      and normal = normal and normal_init = normal_init and width = width and height = height
      and sun = sun and buf = buf]
  show ?thesis by (simp add: case_prod_beta)
qed

lemma scene0_hit_valid:
  "\<exists>k<2. valid_t C0 (plane_intersect (tris0 k) ((\<lambda>i. eye0) (0::nat)) ((\<lambda>i. Vec3 0 0 (- 1)) (0::nat)))"
  by (rule exI[of _ 0]) (simp add: scene0_params valid_t_def C0_def)

lemma scene0_to_sun:
  "normalize (vsub (Vec3 (1 / 5) (1 / 5) 0) (vadd eye0 (vscale 4 (Vec3 0 0 (- 1))))) = Vec3 0 0 (- 1)"
  by (simp add: normalize_def vsub_def vadd_def vscale_def vlength_def dot_def eye0_def)

lemma C0_values: "MAX_RT_DIST C0 = 100" "MIN_RT_DIST C0 = 1 / 1000"
  by (simp_all add: C0_def)

theorem hit_writes_unclamped_diffuse_witness:
  "(0::nat) < 1
   \<and> (\<exists>k<2. valid_t C0 (plane_intersect (tris0 k) ((\<lambda>i. eye0) (0::nat)) ((\<lambda>i. Vec3 0 0 (- 1)) (0::nat))))
   \<and> rgba (gpu_draw_object plane_intersect up_normal C0 (Vec3 0 0 0) 1 1 1 2
              (\<lambda>i. eye0) (\<lambda>i. Vec3 0 0 (- 1)) tris0 \<lparr>pos = Vec3 (1 / 5) (1 / 5) 0\<rparr> 0 buf0) 0
        = Vec4 (- 1) (- (1 / 5)) 0 1
   \<and> depth (gpu_draw_object plane_intersect up_normal C0 (Vec3 0 0 0) 1 1 1 2
              (\<lambda>i. eye0) (\<lambda>i. Vec3 0 0 (- 1)) tris0 \<lparr>pos = Vec3 (1 / 5) (1 / 5) 0\<rparr> 0 buf0) 0
        = MAX_RT_DIST C0"
proof -
  have h1: "(0::nat) < 1" by simp
  note h2 = scene0_hit_valid
  from h1 h2 hit_writes_unclamped_diffuse[where i = 0 and n_elements = 1
      and tri_count = 2 and C = C0 and ray_intersect = plane_intersect
      and triangles = tris0 and ray_origins = "\<lambda>i. eye0" and ray_directions = "\<lambda>i. Vec3 0 0 (- 1)"
      and normal = up_normal and normal_init = "Vec3 0 0 0" and width = 1 and height = 1
      and sun = "\<lparr>pos = Vec3 (1 / 5) (1 / 5) 0\<rparr>" and buf = buf0]
  have "rgba (gpu_draw_object plane_intersect up_normal C0 (Vec3 0 0 0) 1 1 1 2
              (\<lambda>i. eye0) (\<lambda>i. Vec3 0 0 (- 1)) tris0 \<lparr>pos = Vec3 (1 / 5) (1 / 5) 0\<rparr> 0 buf0) 0
           = vec4_of (vscale (dot (Vec3 0 0 1) (normalize (vsub (Vec3 (1 / 5) (1 / 5) 0)
                (vadd eye0 (vscale 4 (Vec3 0 0 (- 1))))))) (Vec3 1 (2 / 10) 0)) 1
       \<and> depth (gpu_draw_object plane_intersect up_normal C0 (Vec3 0 0 0) 1 1 1 2
              (\<lambda>i. eye0) (\<lambda>i. Vec3 0 0 (- 1)) tris0 \<lparr>pos = Vec3 (1 / 5) (1 / 5) 0\<rparr> 0 buf0) 0
           = MAX_RT_DIST C0"
    by (simp add: scene0_down del: One_nat_def)
  then show ?thesis using h1 h2
    by (simp only: scene0_to_sun) (simp add: dot_def vscale_def vec4_of_def)
qed

theorem hit_color_counterexample:
  "rgba (gpu_draw_object plane_intersect up_normal C0 (Vec3 0 0 0) 1 1 1 2
              (\<lambda>i. eye0) (\<lambda>i. Vec3 0 0 (- 1)) tris0 \<lparr>pos = Vec3 (1 / 5) (1 / 5) 0\<rparr> 0 buf0) 0
     \<noteq> spec_direct_lighting (Vec3 0 0 1) (Vec3 0 0 (- 1)) (Vec3 1 (2 / 10) 0) 1
   \<and> fst (closest_hit plane_intersect up_normal C0 2 tris0 eye0 (Vec3 0 0 (- 1)) (Vec3 0 0 0)) = 4
   \<and> depth (gpu_draw_object plane_intersect up_normal C0 (Vec3 0 0 0) 1 1 1 2
              (\<lambda>i. eye0) (\<lambda>i. Vec3 0 0 (- 1)) tris0 \<lparr>pos = Vec3 (1 / 5) (1 / 5) 0\<rparr> 0 buf0) 0
       = 100"
proof -
  have "gpu_draw_object plane_intersect up_normal C0 (Vec3 0 0 0) 1 1 1 2
              (\<lambda>i. eye0) (\<lambda>i. Vec3 0 0 (- 1)) tris0 \<lparr>pos = Vec3 (1 / 5) (1 / 5) 0\<rparr> 0 buf0
        = buf0\<lparr>rgba := (rgba buf0)(0 := Vec4 (- 1) (- (1 / 5)) 0 1),
                depth := (depth buf0)(0 := 100)\<rparr>"
    by (simp add: gpu_draw_object_def scene0_down C0_values Let_def)
       (simp add: normalize_def vsub_def vadd_def vscale_def vlength_def dot_def eye0_def
          vec4_of_def)
  then show ?thesis
    by (simp add: scene0_down spec_direct_lighting_def dot_def vscale_def vec4_of_def)
qed

text \<open>
  C9 (as amended).  For a pixel whose ray has no intersection parameter strictly between
  \<open>MIN_RT_DIST\<close> and \<open>MAX_RT_DIST\<close>, the kernel writes the depth \<open>MAX_RT_DIST\<close> and the
  colour opaque black \<open>(0, 0, 0, 1)\<close>, whatever background colour is configured; the
  other pixels are left as they were.
\<close>

theorem miss_writes_black_and_sentinel:
  assumes "i < n_elements"
    and "\<not> (\<exists>k<tri_count. valid_t C (ray_intersect (triangles k) (ray_origins i) (ray_directions i)))"
  shows "depth (gpu_draw_object ray_intersect normal C normal_init n_elements width height tri_count
                 ray_origins ray_directions triangles sun i buf) i = MAX_RT_DIST C
       \<and> rgba (gpu_draw_object ray_intersect normal C normal_init n_elements width height tri_count
                 ray_origins ray_directions triangles sun i buf) i = Vec4 0 0 0 1
       \<and> (\<forall>j. j \<noteq> i \<longrightarrow>
            depth (gpu_draw_object ray_intersect normal C normal_init n_elements width height
                     tri_count ray_origins ray_directions triangles sun i buf) j = depth buf j
          \<and> rgba (gpu_draw_object ray_intersect normal C normal_init n_elements width height
                     tri_count ray_origins ray_directions triangles sun i buf) j = rgba buf j)"
proof -
  from assms gpu_draw_object_miss[where i = i and n_elements = n_elements
      and tri_count = tri_count and C = C and ray_intersect = ray_intersect
      and triangles = triangles and ray_origins = ray_origins and ray_directions = ray_directions
      and normal = normal and normal_init = normal_init and width = width and height = height
      and sun = sun and buf = buf]
  show ?thesis by simp
qed

lemma scene0_miss:
  "\<not> (\<exists>k<2. valid_t C0 (plane_intersect (tris0 k) ((\<lambda>i. eye0) (0::nat)) ((\<lambda>i. Vec3 0 0 1) (0::nat))))"
  by (auto simp: valid_t_def C0_def plane_intersect_def tris0_def eye0_def)

theorem miss_writes_black_witness:
  "(0::nat) < 1
   \<and> \<not> (\<exists>k<2. valid_t C0 (plane_intersect (tris0 k) ((\<lambda>i. eye0) (0::nat)) ((\<lambda>i. Vec3 0 0 1) (0::nat))))
   \<and> depth (gpu_draw_object plane_intersect up_normal C0 (Vec3 0 0 0) 1 1 1 2
              (\<lambda>i. eye0) (\<lambda>i. Vec3 0 0 1) tris0 \<lparr>pos = Vec3 (1 / 5) (1 / 5) 9\<rparr> 0 buf0) 0
        = MAX_RT_DIST C0
   \<and> rgba (gpu_draw_object plane_intersect up_normal C0 (Vec3 0 0 0) 1 1 1 2
              (\<lambda>i. eye0) (\<lambda>i. Vec3 0 0 1) tris0 \<lparr>pos = Vec3 (1 / 5) (1 / 5) 9\<rparr> 0 buf0) 0
        = Vec4 0 0 0 1"
proof -
  have h1: "(0::nat) < 1" by simp
  note h2 = scene0_miss
  from h1 h2 miss_writes_black_and_sentinel[where i = 0 and n_elements = 1
      and tri_count = 2 and C = C0 and ray_intersect = plane_intersect
      and triangles = tris0 and ray_origins = "\<lambda>i. eye0" and ray_directions = "\<lambda>i. Vec3 0 0 1"
      and normal = up_normal and normal_init = "Vec3 0 0 0" and width = 1 and height = 1
      and sun = "\<lparr>pos = Vec3 (1 / 5) (1 / 5) 9\<rparr>" and buf = buf0]
  show ?thesis by simp
qed

theorem miss_color_counterexample:
  "rgba (gpu_draw_object plane_intersect up_normal C0 (Vec3 0 0 0) 1 1 1 2
              (\<lambda>i. eye0) (\<lambda>i. Vec3 0 0 1) tris0 \<lparr>pos = Vec3 (1 / 5) (1 / 5) 9\<rparr> 0 buf0) 0
     \<noteq> glClearColor (Vec3 1 1 1)"
  by (simp add: gpu_draw_object_def scene0_up glClearColor_def vec4_of_def C0_values)

text \<open>
  C1 (as amended).  For a pixel whose ray has at least one intersection parameter
  strictly between \<open>MIN_RT_DIST\<close> and \<open>MAX_RT_DIST\<close>, the loop of \<open>gpu_draw_object\<close>
  selects the minimum of those parameters and the first triangle, in the order of the
  loop, whose parameter is that minimum (a later triangle with the same parameter does
  not replace it).  The kernel writes that parameter to no output: the depth of the pixel
  is \<open>MAX_RT_DIST\<close>, and the minimum and the normal of the selected triangle appear only
  in the colour, \<open>dot(normal, normalize(sun.pos - (ro + rd * t))) * (1, 0.2, 0)\<close> with
  alpha 1.
\<close>

theorem kernel_shades_minimum_hit_first_wins:
  assumes "i < n_elements"
    and "\<exists>k<tri_count. valid_t C (ray_intersect (triangles k) (ray_origins i) (ray_directions i))"
  shows "\<exists>k<tri_count.
           ray_intersect (triangles k) (ray_origins i) (ray_directions i)
             = Min {ray_intersect (triangles j) (ray_origins i) (ray_directions i) | j.
                      j < tri_count
                      \<and> valid_t C (ray_intersect (triangles j) (ray_origins i) (ray_directions i))}
         \<and> (\<forall>j<k. ray_intersect (triangles j) (ray_origins i) (ray_directions i)
                      \<noteq> ray_intersect (triangles k) (ray_origins i) (ray_directions i))
         \<and> closest_hit ray_intersect normal C tri_count triangles
               (ray_origins i) (ray_directions i) normal_init
             = (ray_intersect (triangles k) (ray_origins i) (ray_directions i), normal (triangles k))
         \<and> rgba (gpu_draw_object ray_intersect normal C normal_init n_elements width height
                    tri_count ray_origins ray_directions triangles sun i buf) i
             = vec4_of
                 (vscale
                    (dot (normal (triangles k))
                         (normalize (vsub (pos sun)
                            (vadd (ray_origins i)
                               (vscale (ray_intersect (triangles k) (ray_origins i) (ray_directions i))
                                  (ray_directions i))))))
                    (Vec3 1 (2 / 10) 0)) 1
         \<and> depth (gpu_draw_object ray_intersect normal C normal_init n_elements width height
                    tri_count ray_origins ray_directions triangles sun i buf) i
             = MAX_RT_DIST C"
proof -
  let ?ro = "ray_origins i" and ?rd = "ray_directions i"
  let ?t = "\<lambda>k. ray_intersect (triangles k) ?ro ?rd"
  let ?S = "{?t j | j. j < tri_count \<and> valid_t C (?t j)}"
  let ?r = "closest_hit ray_intersect normal C tri_count triangles ?ro ?rd normal_init"
  from assms(2)
    closest_hit_some[where tri_count = tri_count and C = C and ray_intersect = ray_intersect
      and triangles = triangles and ro = ?ro and rd = ?rd and normal = normal
      and normal_init = normal_init]
  obtain k where k: "k < tri_count" "valid_t C (?t k)" "fst ?r = ?t k" "snd ?r = normal (triangles k)"
      "\<forall>j<tri_count. valid_t C (?t j) \<longrightarrow> ?t k \<le> ?t j" "\<forall>j<k. ?t j \<noteq> ?t k"
    by blast
  have fin: "finite ?S" by simp
  have mem: "?t k \<in> ?S" using k(1,2) by blast
  have le: "\<And>y. y \<in> ?S \<Longrightarrow> ?t k \<le> y" using k(5) by blast
  have mn: "?t k = Min ?S" by (rule Min_eqI[OF fin le mem, symmetric])
  have r: "?r = (?t k, normal (triangles k))"
    using k(3,4) by (simp add: prod_eq_iff)
  from assms gpu_draw_object_hit[where i = i and n_elements = n_elements
      and tri_count = tri_count and C = C and ray_intersect = ray_intersect
      and triangles = triangles and ray_origins = ray_origins and ray_directions = ray_directions
      and normal = normal and normal_init = normal_init and width = width and height = height
      and sun = sun and buf = buf]
  have out: "gpu_draw_object ray_intersect normal C normal_init n_elements width height tri_count
           ray_origins ray_directions triangles sun i buf
       = buf\<lparr>rgba := (rgba buf)
                     (i := vec4_of (vscale (dot (normal (triangles k)) (normalize (vsub (pos sun)
                              (vadd ?ro (vscale (?t k) ?rd)))))
                            (Vec3 1 (2 / 10) 0)) 1),
                  depth := (depth buf)(i := MAX_RT_DIST C)\<rparr>"
    by (simp add: r)
  show ?thesis
    apply (rule exI[of _ k])
    using k(1,6) mn r by (simp add: out)
qed

lemma scene0_single:
  "closest_hit plane_intersect up_normal C0 1 tris0 eye0 (Vec3 0 0 (- 1)) n = (5, Vec3 0 0 1)"
  by (simp add: closest_hit_def closest_step_def scene0_params C0_def up_normal_def)

lemma scene0_outputs:
  "gpu_draw_object plane_intersect up_normal C0 (Vec3 0 0 0) 1 1 1 2
      (\<lambda>i. eye0) (\<lambda>i. Vec3 0 0 (- 1)) tris0 \<lparr>pos = Vec3 (1 / 5) (1 / 5) 9\<rparr> 0 buf0
   = buf0\<lparr>rgba := (rgba buf0)(0 := Vec4 1 (1 / 5) 0 1), depth := (depth buf0)(0 := 100)\<rparr>"
  "gpu_draw_object plane_intersect up_normal C0 (Vec3 0 0 0) 1 1 1 1
      (\<lambda>i. eye0) (\<lambda>i. Vec3 0 0 (- 1)) tris0 \<lparr>pos = Vec3 (1 / 5) (1 / 5) 9\<rparr> 0 buf0
   = buf0\<lparr>rgba := (rgba buf0)(0 := Vec4 1 (1 / 5) 0 1), depth := (depth buf0)(0 := 100)\<rparr>"
  by (simp_all add: gpu_draw_object_def scene0_down scene0_single C0_values Let_def
        del: One_nat_def)
     (simp_all add: normalize_def vsub_def vadd_def vscale_def vlength_def dot_def eye0_def
        vec4_of_def)

theorem kernel_shades_minimum_witness:
  "(0::nat) < 1
   \<and> (\<exists>k<2. valid_t C0 (plane_intersect (tris0 k) eye0 (Vec3 0 0 (- 1))))
   \<and> (\<exists>k<2. plane_intersect (tris0 k) eye0 (Vec3 0 0 (- 1))
               = Min {plane_intersect (tris0 j) eye0 (Vec3 0 0 (- 1)) | j.
                        j < 2 \<and> valid_t C0 (plane_intersect (tris0 j) eye0 (Vec3 0 0 (- 1)))}
             \<and> closest_hit plane_intersect up_normal C0 2 tris0 eye0 (Vec3 0 0 (- 1)) (Vec3 0 0 0)
                 = (plane_intersect (tris0 k) eye0 (Vec3 0 0 (- 1)), up_normal (tris0 k)))
   \<and> closest_hit plane_intersect up_normal C0 2 tris0 eye0 (Vec3 0 0 (- 1)) (Vec3 0 0 0)
       = (4, Vec3 0 0 1)
   \<and> rgba (gpu_draw_object plane_intersect up_normal C0 (Vec3 0 0 0) 1 1 1 2
              (\<lambda>i. eye0) (\<lambda>i. Vec3 0 0 (- 1)) tris0 \<lparr>pos = Vec3 (1 / 5) (1 / 5) 9\<rparr> 0 buf0) 0
       = Vec4 1 (1 / 5) 0 1
   \<and> depth (gpu_draw_object plane_intersect up_normal C0 (Vec3 0 0 0) 1 1 1 2
              (\<lambda>i. eye0) (\<lambda>i. Vec3 0 0 (- 1)) tris0 \<lparr>pos = Vec3 (1 / 5) (1 / 5) 9\<rparr> 0 buf0) 0
       = MAX_RT_DIST C0"
proof -
  have h1: "(0::nat) < 1" by simp
  have h2: "\<exists>k<2. valid_t C0 (plane_intersect (tris0 k) eye0 (Vec3 0 0 (- 1)))"
    by (rule exI[of _ 0]) (simp add: scene0_params valid_t_def C0_def)
  from h1 h2 kernel_shades_minimum_hit_first_wins[where i = 0 and n_elements = 1
      and tri_count = 2 and C = C0 and ray_intersect = plane_intersect
      and triangles = tris0 and ray_origins = "\<lambda>i. eye0" and ray_directions = "\<lambda>i. Vec3 0 0 (- 1)"
      and normal = up_normal and normal_init = "Vec3 0 0 0" and width = 1 and height = 1
      and sun = "\<lparr>pos = Vec3 (1 / 5) (1 / 5) 9\<rparr>" and buf = buf0]
  obtain k where k: "k < 2"
      "plane_intersect (tris0 k) eye0 (Vec3 0 0 (- 1))
         = Min {plane_intersect (tris0 j) eye0 (Vec3 0 0 (- 1)) | j.
                  j < 2 \<and> valid_t C0 (plane_intersect (tris0 j) eye0 (Vec3 0 0 (- 1)))}"
      "closest_hit plane_intersect up_normal C0 2 tris0 eye0 (Vec3 0 0 (- 1)) (Vec3 0 0 0)
         = (plane_intersect (tris0 k) eye0 (Vec3 0 0 (- 1)), up_normal (tris0 k))"
      "depth (gpu_draw_object plane_intersect up_normal C0 (Vec3 0 0 0) 1 1 1 2
              (\<lambda>i. eye0) (\<lambda>i. Vec3 0 0 (- 1)) tris0 \<lparr>pos = Vec3 (1 / 5) (1 / 5) 9\<rparr> 0 buf0) 0
         = MAX_RT_DIST C0"
    by auto
  have ex: "\<exists>k<2. plane_intersect (tris0 k) eye0 (Vec3 0 0 (- 1))
               = Min {plane_intersect (tris0 j) eye0 (Vec3 0 0 (- 1)) | j.
                        j < 2 \<and> valid_t C0 (plane_intersect (tris0 j) eye0 (Vec3 0 0 (- 1)))}
             \<and> closest_hit plane_intersect up_normal C0 2 tris0 eye0 (Vec3 0 0 (- 1)) (Vec3 0 0 0)
                 = (plane_intersect (tris0 k) eye0 (Vec3 0 0 (- 1)), up_normal (tris0 k))"
    using k(1,2,3) by blast
  have col: "rgba (gpu_draw_object plane_intersect up_normal C0 (Vec3 0 0 0) 1 1 1 2
              (\<lambda>i. eye0) (\<lambda>i. Vec3 0 0 (- 1)) tris0 \<lparr>pos = Vec3 (1 / 5) (1 / 5) 9\<rparr> 0 buf0) 0
       = Vec4 1 (1 / 5) 0 1"
    by (simp add: scene0_outputs(1) del: One_nat_def)
  from h1 h2 ex col k(4) show ?thesis by (simp add: scene0_down del: One_nat_def)
qed

theorem kernel_output_hides_minimum_counterexample:
  "fst (closest_hit plane_intersect up_normal C0 1 tris0 eye0 (Vec3 0 0 (- 1)) (Vec3 0 0 0)) = 5
   \<and> fst (closest_hit plane_intersect up_normal C0 2 tris0 eye0 (Vec3 0 0 (- 1)) (Vec3 0 0 0)) = 4
   \<and> gpu_draw_object plane_intersect up_normal C0 (Vec3 0 0 0) 1 1 1 1
        (\<lambda>i. eye0) (\<lambda>i. Vec3 0 0 (- 1)) tris0 \<lparr>pos = Vec3 (1 / 5) (1 / 5) 9\<rparr> 0 buf0
     = gpu_draw_object plane_intersect up_normal C0 (Vec3 0 0 0) 1 1 1 2
        (\<lambda>i. eye0) (\<lambda>i. Vec3 0 0 (- 1)) tris0 \<lparr>pos = Vec3 (1 / 5) (1 / 5) 9\<rparr> 0 buf0
   \<and> depth (gpu_draw_object plane_intersect up_normal C0 (Vec3 0 0 0) 1 1 1 2
        (\<lambda>i. eye0) (\<lambda>i. Vec3 0 0 (- 1)) tris0 \<lparr>pos = Vec3 (1 / 5) (1 / 5) 9\<rparr> 0 buf0) 0
     = MAX_RT_DIST C0"
  by (simp add: scene0_outputs scene0_down scene0_single C0_values del: One_nat_def)

section \<open>Scene synchronisation\<close>

lemma scan_dirty_fst: "fst (scan_dirty acc es) = (acc \<or> any_dirty es)"
  by (induction es arbitrary: acc) (auto simp: any_dirty_def case_prod_beta Let_def)

lemma scan_dirty_snd: "snd (scan_dirty acc es) = map (\<lambda>m. m\<lparr>is_dirty := False\<rparr>) es"
  by (induction es arbitrary: acc) (auto simp: case_prod_beta Let_def)

lemma build_world_fst:
  "fst (build_world nf tr anim speed objs) = map (\<lambda>obj. if anim then nf speed obj else obj) objs"
  by (induction objs) (auto simp: case_prod_beta Let_def)

lemma build_world_snd:
  "snd (build_world nf tr anim speed objs) = map tr (fst (build_world nf tr anim speed objs))"
  by (induction objs) (auto simp: case_prod_beta Let_def)

lemma animate_lights_map:
  "animate_lights nf anim speed ls = map (\<lambda>obj. if anim then nf speed obj else obj) ls"
  by (induction ls) auto

lemma clear_clean: "\<not> any_dirty es \<Longrightarrow> map (\<lambda>m. m\<lparr>is_dirty := False\<rparr>) es = es"
  by (induction es) (auto simp: any_dirty_def)

lemma any_dirty_clear: "\<not> any_dirty (map (\<lambda>m. m\<lparr>is_dirty := False\<rparr>) es)"
  by (induction es) (auto simp: any_dirty_def)

lemma sync_objects_eq:
  "sync_objects onf tr (b, e) =
     (if any_dirty (m_objects e) \<or> m_enable_animations e
      then (True, e\<lparr>m_objects := map (\<lambda>obj. if m_enable_animations e then onf (m_anim_speed e) obj else obj)
                                    (map (\<lambda>m. m\<lparr>is_dirty := False\<rparr>) (m_objects e)),
                     d_world := map tr (map (\<lambda>obj. if m_enable_animations e then onf (m_anim_speed e) obj else obj)
                                    (map (\<lambda>m. m\<lparr>is_dirty := False\<rparr>) (m_objects e))),
                     gpu_log := gpu_log e @ [UploadWorld]\<rparr>)
      else (b, e\<lparr>m_objects := map (\<lambda>m. m\<lparr>is_dirty := False\<rparr>) (m_objects e)\<rparr>))"
  by (simp add: sync_objects_def Let_def case_prod_beta scan_dirty_fst scan_dirty_snd
        build_world_fst build_world_snd)

lemma sync_materials_eq:
  "sync_materials (b, e) =
     (if any_dirty (m_materials e)
      then (True, e\<lparr>m_materials := map (\<lambda>m. m\<lparr>is_dirty := False\<rparr>) (m_materials e),
                     d_materials := map (\<lambda>m. m\<lparr>is_dirty := False\<rparr>) (m_materials e),
                     gpu_log := gpu_log e @ [UploadMaterials]\<rparr>)
      else (b, e\<lparr>m_materials := map (\<lambda>m. m\<lparr>is_dirty := False\<rparr>) (m_materials e)\<rparr>))"
  by (simp add: sync_materials_def Let_def case_prod_beta scan_dirty_fst scan_dirty_snd)

lemma sync_lights_eq:
  "sync_lights lnf (b, e) =
     (if any_dirty (m_lights e) \<or> m_enable_animations e
      then (True, e\<lparr>m_lights := map (\<lambda>obj. if m_enable_animations e then lnf (m_anim_speed e) obj else obj)
                                    (map (\<lambda>m. m\<lparr>is_dirty := False\<rparr>) (m_lights e)),
                     d_lights := map (\<lambda>obj. if m_enable_animations e then lnf (m_anim_speed e) obj else obj)
                                    (map (\<lambda>m. m\<lparr>is_dirty := False\<rparr>) (m_lights e)),
                     gpu_log := gpu_log e @ [UploadLights]\<rparr>)
      else (b, e\<lparr>m_lights := map (\<lambda>m. m\<lparr>is_dirty := False\<rparr>) (m_lights e)\<rparr>))"
  by (simp add: sync_lights_def Let_def case_prod_beta scan_dirty_fst scan_dirty_snd
        animate_lights_map)


lemma phases_eq:
  "sync_lights lnf (sync_materials (sync_objects onf tr (False, e)))
   = (any_dirty (m_objects e) \<or> any_dirty (m_materials e) \<or> any_dirty (m_lights e)
        \<or> m_enable_animations e,
      e\<lparr>m_objects := map (\<lambda>obj. if m_enable_animations e then onf (m_anim_speed e) obj else obj)
                        (map (\<lambda>m. m\<lparr>is_dirty := False\<rparr>) (m_objects e)),
        m_materials := map (\<lambda>m. m\<lparr>is_dirty := False\<rparr>) (m_materials e),
        m_lights := map (\<lambda>obj. if m_enable_animations e then lnf (m_anim_speed e) obj else obj)
                        (map (\<lambda>m. m\<lparr>is_dirty := False\<rparr>) (m_lights e)),
        d_world := (if any_dirty (m_objects e) \<or> m_enable_animations e
                    then map tr (map (\<lambda>obj. if m_enable_animations e then onf (m_anim_speed e) obj else obj)
                        (map (\<lambda>m. m\<lparr>is_dirty := False\<rparr>) (m_objects e)))
                    else d_world e),
        d_materials := (if any_dirty (m_materials e)
                        then map (\<lambda>m. m\<lparr>is_dirty := False\<rparr>) (m_materials e)
                        else d_materials e),
        d_lights := (if any_dirty (m_lights e) \<or> m_enable_animations e
                     then map (\<lambda>obj. if m_enable_animations e then lnf (m_anim_speed e) obj else obj)
                        (map (\<lambda>m. m\<lparr>is_dirty := False\<rparr>) (m_lights e))
                     else d_lights e),
        gpu_log := gpu_log e
           @ (if any_dirty (m_objects e) \<or> m_enable_animations e then [UploadWorld] else [])
           @ (if any_dirty (m_materials e) then [UploadMaterials] else [])
           @ (if any_dirty (m_lights e) \<or> m_enable_animations e then [UploadLights] else [])\<rparr>)"
  by (simp add: sync_objects_eq sync_materials_eq sync_lights_eq)


lemma update_log:
  "gpu_log (update_world_objects onf tr lnf e)
     = gpu_log e
       @ (if any_dirty (m_objects e) \<or> m_enable_animations e then [UploadWorld] else [])
       @ (if any_dirty (m_materials e) then [UploadMaterials] else [])
       @ (if any_dirty (m_lights e) \<or> m_enable_animations e then [UploadLights] else [])
       @ (if needs_reset_of e \<and> m_testbed e
          then [RaytracerResetAccumulation, TestbedResetAccumulation] else [])"
  by (simp add: update_world_objects_def phases_eq needs_reset_of_def)

lemma update_objects:
  "m_objects (update_world_objects onf tr lnf e)
     = map (\<lambda>obj. if m_enable_animations e then onf (m_anim_speed e) obj else obj)
         (map (\<lambda>m. m\<lparr>is_dirty := False\<rparr>) (m_objects e))"
  by (simp add: update_world_objects_def phases_eq)

lemma update_materials:
  "m_materials (update_world_objects onf tr lnf e)
     = map (\<lambda>m. m\<lparr>is_dirty := False\<rparr>) (m_materials e)"
  by (simp add: update_world_objects_def phases_eq)

lemma update_lights:
  "m_lights (update_world_objects onf tr lnf e)
     = map (\<lambda>obj. if m_enable_animations e then lnf (m_anim_speed e) obj else obj)
         (map (\<lambda>m. m\<lparr>is_dirty := False\<rparr>) (m_lights e))"
  by (simp add: update_world_objects_def phases_eq)

lemma update_d_world:
  "d_world (update_world_objects onf tr lnf e)
     = (if any_dirty (m_objects e) \<or> m_enable_animations e
        then map tr (m_objects (update_world_objects onf tr lnf e)) else d_world e)"
  by (simp add: update_world_objects_def phases_eq)

lemma update_d_materials:
  "d_materials (update_world_objects onf tr lnf e)
     = (if any_dirty (m_materials e)
        then m_materials (update_world_objects onf tr lnf e) else d_materials e)"
  by (simp add: update_world_objects_def phases_eq)

lemma update_d_lights:
  "d_lights (update_world_objects onf tr lnf e)
     = (if any_dirty (m_lights e) \<or> m_enable_animations e
        then m_lights (update_world_objects onf tr lnf e) else d_lights e)"
  by (simp add: update_world_objects_def phases_eq)

lemma update_flags:
  "m_is_dirty (update_world_objects onf tr lnf e) = m_is_dirty e"
  "m_testbed (update_world_objects onf tr lnf e) = m_testbed e"
  "m_enable_animations (update_world_objects onf tr lnf e) = m_enable_animations e"
  "m_anim_speed (update_world_objects onf tr lnf e) = m_anim_speed e"
  by (simp_all add: update_world_objects_def phases_eq)

lemma update_clean_identity:
  assumes "all_clean e" "\<not> m_is_dirty e" "\<not> m_enable_animations e"
  shows "update_world_objects onf tr lnf e = e"
  using assms
  by (simp add: update_world_objects_def phases_eq all_clean_def clear_clean)

lemma uploads_append: "uploads (xs @ ys) = uploads xs + uploads ys"
  by (simp add: uploads_def)

lemma resets_append: "resets (xs @ ys) = resets xs + resets ys"
  by (simp add: resets_def)

lemma update_resets:
  "resets (gpu_log (update_world_objects onf tr lnf e))
     = resets (gpu_log e) + (if needs_reset_of e \<and> m_testbed e then 1 else 0)"
  by (simp add: update_log resets_append) (simp add: resets_def)

lemma update_uploads:
  "uploads (gpu_log (update_world_objects onf tr lnf e))
     = uploads (gpu_log e)
       + (if any_dirty (m_objects e) \<or> m_enable_animations e then 1 else 0)
       + (if any_dirty (m_materials e) then 1 else 0)
       + (if any_dirty (m_lights e) \<or> m_enable_animations e then 1 else 0)"
  by (simp add: update_log uploads_append) (simp add: uploads_def)

lemma dirty_count_pos: "0 < dirty_count e \<Longrightarrow> needs_reset_of e"
  by (auto simp: dirty_count_def needs_reset_of_def any_dirty_def list_ex_iff filter_empty_conv)

lemma update_all_clean:
  assumes "\<not> m_enable_animations e
           \<or> ((\<forall>s x. \<not> is_dirty x \<longrightarrow> \<not> is_dirty (onf s x))
              \<and> (\<forall>s x. \<not> is_dirty x \<longrightarrow> \<not> is_dirty (lnf s x)))"
  shows "all_clean (update_world_objects onf tr lnf e)"
  using assms
  by (auto simp: all_clean_def update_objects update_materials update_lights any_dirty_def
        list_ex_iff)

text \<open>
  C4 (as amended).  If no entity is dirty, the redraw flag of the engine is not set and
  animations are disabled, \<open>update_world_objects\<close> leaves the engine as it is: nothing is
  uploaded and accumulation is not reset.  If exactly one entity is dirty and the testbed
  is attached, exactly one accumulation reset is issued; with animations disabled every
  dirty flag is clear afterwards, and, the redraw flag not being set, the call of the
  following frame changes nothing more.
\<close>

theorem dirty_tracking_without_animations:
  "(all_clean e \<and> \<not> m_is_dirty e \<and> \<not> m_enable_animations e \<longrightarrow>
      update_world_objects onf tr lnf e = e
      \<and> uploads (gpu_log (update_world_objects onf tr lnf e)) = uploads (gpu_log e)
      \<and> resets (gpu_log (update_world_objects onf tr lnf e)) = resets (gpu_log e))
   \<and> (dirty_count e = 1 \<and> m_testbed e \<longrightarrow>
      resets (gpu_log (update_world_objects onf tr lnf e)) = resets (gpu_log e) + 1
      \<and> (\<not> m_enable_animations e \<longrightarrow> all_clean (update_world_objects onf tr lnf e))
      \<and> (\<not> m_enable_animations e \<and> \<not> m_is_dirty e \<longrightarrow>
           update_world_objects onf tr lnf (update_world_objects onf tr lnf e)
             = update_world_objects onf tr lnf e))"
proof (intro conjI impI)
  assume a: "all_clean e \<and> \<not> m_is_dirty e \<and> \<not> m_enable_animations e"
  then show id: "update_world_objects onf tr lnf e = e"
    by (simp add: update_clean_identity)
  then show "uploads (gpu_log (update_world_objects onf tr lnf e)) = uploads (gpu_log e)"
    and "resets (gpu_log (update_world_objects onf tr lnf e)) = resets (gpu_log e)"
    by simp_all
next
  assume "dirty_count e = 1 \<and> m_testbed e"
  then have "needs_reset_of e" "m_testbed e" by (simp_all add: dirty_count_pos)
  then show "resets (gpu_log (update_world_objects onf tr lnf e)) = resets (gpu_log e) + 1"
    by (simp add: update_resets)
next
  assume "\<not> m_enable_animations e"
  then show "all_clean (update_world_objects onf tr lnf e)"
    by (simp add: update_all_clean)
next
  assume b: "\<not> m_enable_animations e \<and> \<not> m_is_dirty e"
  then have "all_clean (update_world_objects onf tr lnf e)"
    by (simp add: update_all_clean)
  with b show "update_world_objects onf tr lnf (update_world_objects onf tr lnf e)
             = update_world_objects onf tr lnf e"
    by (simp add: update_clean_identity update_flags)
qed

lemma e_clean_facts:
  "all_clean e_clean" "\<not> m_is_dirty e_clean" "\<not> m_enable_animations e_clean"
  by (simp_all add: e_clean_def all_clean_def any_dirty_def)

lemma e_one_facts:
  "dirty_count e_one = 1" "m_testbed e_one" "\<not> m_enable_animations e_one" "\<not> m_is_dirty e_one"
  "gpu_log e_one = []" "any_dirty (m_lights e_one)" "\<not> any_dirty (m_objects e_one)"
  "\<not> any_dirty (m_materials e_one)"
  by (simp_all add: e_one_def e_clean_def dirty_count_def any_dirty_def)

theorem dirty_tracking_witness:
  "(all_clean e_clean \<and> \<not> m_is_dirty e_clean \<and> \<not> m_enable_animations e_clean)
   \<and> update_world_objects keep body keep e_clean = e_clean
   \<and> (dirty_count e_one = 1 \<and> m_testbed e_one)
   \<and> resets (gpu_log (update_world_objects keep body keep e_one)) = 1
   \<and> (\<not> m_enable_animations e_one \<and> \<not> m_is_dirty e_one)
   \<and> all_clean (update_world_objects keep body keep e_one)
   \<and> update_world_objects keep body keep (update_world_objects keep body keep e_one)
       = update_world_objects keep body keep e_one"
  using dirty_tracking_without_animations[of e_clean keep body keep]
        dirty_tracking_without_animations[of e_one keep body keep]
  by (simp add: e_clean_facts e_one_facts resets_def)

theorem animations_upload_counterexample:
  "all_clean e_anim \<and> \<not> m_is_dirty e_anim
   \<and> uploads (gpu_log e_anim) = 0 \<and> resets (gpu_log e_anim) = 0
   \<and> uploads (gpu_log (update_world_objects keep body keep e_anim)) = 2
   \<and> resets (gpu_log (update_world_objects keep body keep e_anim)) = 1"
  by (simp add: update_uploads update_resets needs_reset_of_def)
     (simp add: e_anim_def e_clean_def all_clean_def any_dirty_def uploads_def resets_def)

text \<open>
  C5 (as amended).  \<open>update_world_objects\<close> scans the three categories and clears the
  dirty flag of every entity.  Objects and lights are then advanced by the animation step
  when animations are enabled.  A category with a dirty entity is rebuilt and uploaded
  whole, so that its device array mirrors the host array after the call; objects and
  lights are also uploaded whenever animations are enabled; a category that is neither
  keeps its device array.  The animation step may set flags again: they are all clear
  afterwards when animations are disabled or the step leaves clear flags clear.
  Accumulation is reset exactly when some entity was dirty or animations are enabled or
  the redraw flag of the engine is set, and the testbed is attached.
\<close>

theorem sync_uploads_whole_categories:
  "gpu_log (update_world_objects onf tr lnf e)
     = gpu_log e
       @ (if any_dirty (m_objects e) \<or> m_enable_animations e then [UploadWorld] else [])
       @ (if any_dirty (m_materials e) then [UploadMaterials] else [])
       @ (if any_dirty (m_lights e) \<or> m_enable_animations e then [UploadLights] else [])
       @ (if needs_reset_of e \<and> m_testbed e
          then [RaytracerResetAccumulation, TestbedResetAccumulation] else [])
   \<and> m_objects (update_world_objects onf tr lnf e)
       = map (\<lambda>obj. if m_enable_animations e then onf (m_anim_speed e) obj else obj)
           (map (\<lambda>m. m\<lparr>is_dirty := False\<rparr>) (m_objects e))
   \<and> m_materials (update_world_objects onf tr lnf e)
       = map (\<lambda>m. m\<lparr>is_dirty := False\<rparr>) (m_materials e)
   \<and> m_lights (update_world_objects onf tr lnf e)
       = map (\<lambda>obj. if m_enable_animations e then lnf (m_anim_speed e) obj else obj)
           (map (\<lambda>m. m\<lparr>is_dirty := False\<rparr>) (m_lights e))
   \<and> d_world (update_world_objects onf tr lnf e)
       = (if any_dirty (m_objects e) \<or> m_enable_animations e
          then map tr (m_objects (update_world_objects onf tr lnf e)) else d_world e)
   \<and> d_materials (update_world_objects onf tr lnf e)
       = (if any_dirty (m_materials e)
          then m_materials (update_world_objects onf tr lnf e) else d_materials e)
   \<and> d_lights (update_world_objects onf tr lnf e)
       = (if any_dirty (m_lights e) \<or> m_enable_animations e
          then m_lights (update_world_objects onf tr lnf e) else d_lights e)
   \<and> (\<not> m_enable_animations e
        \<or> ((\<forall>s x. \<not> is_dirty x \<longrightarrow> \<not> is_dirty (onf s x))
           \<and> (\<forall>s x. \<not> is_dirty x \<longrightarrow> \<not> is_dirty (lnf s x)))
       \<longrightarrow> all_clean (update_world_objects onf tr lnf e))
   \<and> resets (gpu_log (update_world_objects onf tr lnf e))
       = resets (gpu_log e) + (if needs_reset_of e \<and> m_testbed e then 1 else 0)"
proof (intro conjI impI)
  show "gpu_log (update_world_objects onf tr lnf e)
     = gpu_log e
       @ (if any_dirty (m_objects e) \<or> m_enable_animations e then [UploadWorld] else [])
       @ (if any_dirty (m_materials e) then [UploadMaterials] else [])
       @ (if any_dirty (m_lights e) \<or> m_enable_animations e then [UploadLights] else [])
       @ (if needs_reset_of e \<and> m_testbed e
          then [RaytracerResetAccumulation, TestbedResetAccumulation] else [])"
    by (rule update_log)
next
  show "m_objects (update_world_objects onf tr lnf e)
       = map (\<lambda>obj. if m_enable_animations e then onf (m_anim_speed e) obj else obj)
           (map (\<lambda>m. m\<lparr>is_dirty := False\<rparr>) (m_objects e))"
    by (rule update_objects)
next
  show "m_materials (update_world_objects onf tr lnf e)
       = map (\<lambda>m. m\<lparr>is_dirty := False\<rparr>) (m_materials e)"
    by (rule update_materials)
next
  show "m_lights (update_world_objects onf tr lnf e)
       = map (\<lambda>obj. if m_enable_animations e then lnf (m_anim_speed e) obj else obj)
           (map (\<lambda>m. m\<lparr>is_dirty := False\<rparr>) (m_lights e))"
    by (rule update_lights)
next
  show "d_world (update_world_objects onf tr lnf e)
       = (if any_dirty (m_objects e) \<or> m_enable_animations e
          then map tr (m_objects (update_world_objects onf tr lnf e)) else d_world e)"
    by (rule update_d_world)
next
  show "d_materials (update_world_objects onf tr lnf e)
       = (if any_dirty (m_materials e)
          then m_materials (update_world_objects onf tr lnf e) else d_materials e)"
    by (rule update_d_materials)
next
  show "d_lights (update_world_objects onf tr lnf e)
       = (if any_dirty (m_lights e) \<or> m_enable_animations e
          then m_lights (update_world_objects onf tr lnf e) else d_lights e)"
    by (rule update_d_lights)
next
  assume "\<not> m_enable_animations e
        \<or> ((\<forall>s x. \<not> is_dirty x \<longrightarrow> \<not> is_dirty (onf s x))
           \<and> (\<forall>s x. \<not> is_dirty x \<longrightarrow> \<not> is_dirty (lnf s x)))"
  then show "all_clean (update_world_objects onf tr lnf e)"
    by (rule update_all_clean)
next
  show "resets (gpu_log (update_world_objects onf tr lnf e))
       = resets (gpu_log e) + (if needs_reset_of e \<and> m_testbed e then 1 else 0)"
    by (rule update_resets)
qed

lemma e_all_facts:
  "any_dirty (m_objects e_all)" "any_dirty (m_materials e_all)" "any_dirty (m_lights e_all)"
  "\<not> m_enable_animations e_all" "m_testbed e_all" "gpu_log e_all = []"
  "m_objects e_all = [\<lparr>is_dirty = True, body = 5\<rparr>]"
  "m_materials e_all = [\<lparr>is_dirty = False, body = 2\<rparr>, \<lparr>is_dirty = True, body = 6\<rparr>]"
  "m_lights e_all = [\<lparr>is_dirty = True, body = 4\<rparr>]"
  by (simp_all add: e_all_def e_clean_def any_dirty_def)

lemma e_anim_facts:
  "\<not> any_dirty (m_objects e_anim)" "\<not> any_dirty (m_materials e_anim)"
  "\<not> any_dirty (m_lights e_anim)"
  "m_enable_animations e_anim" "m_testbed e_anim" "gpu_log e_anim = []"
  "m_objects e_anim = [\<lparr>is_dirty = False, body = 1\<rparr>]"
  "m_lights e_anim = [\<lparr>is_dirty = False, body = 3\<rparr>]"
  "m_materials e_anim = [\<lparr>is_dirty = False, body = 2\<rparr>]"
  "d_materials e_anim = [\<lparr>is_dirty = False, body = 2\<rparr>]"
  by (simp_all add: e_anim_def e_clean_def any_dirty_def)

lemma advance_keeps_flag: "\<forall>s x. \<not> is_dirty x \<longrightarrow> \<not> is_dirty (advance s x)"
  by (simp add: advance_def)

theorem sync_uploads_witness:
  "\<not> m_enable_animations e_all
   \<and> gpu_log (update_world_objects keep body keep e_all)
       = [UploadWorld, UploadMaterials, UploadLights,
          RaytracerResetAccumulation, TestbedResetAccumulation]
   \<and> d_world (update_world_objects keep body keep e_all) = [5]
   \<and> d_materials (update_world_objects keep body keep e_all)
       = [\<lparr>is_dirty = False, body = 2\<rparr>, \<lparr>is_dirty = False, body = 6\<rparr>]
   \<and> d_lights (update_world_objects keep body keep e_all) = [\<lparr>is_dirty = False, body = 4\<rparr>]
   \<and> all_clean (update_world_objects keep body keep e_all)
   \<and> resets (gpu_log (update_world_objects keep body keep e_all)) = 1
   \<and> m_enable_animations e_anim
   \<and> gpu_log (update_world_objects advance body advance e_anim)
       = [UploadWorld, UploadLights, RaytracerResetAccumulation, TestbedResetAccumulation]
   \<and> m_objects (update_world_objects advance body advance e_anim)
       = [\<lparr>is_dirty = False, body = 2\<rparr>]
   \<and> d_world (update_world_objects advance body advance e_anim) = [2]
   \<and> d_materials (update_world_objects advance body advance e_anim)
       = [\<lparr>is_dirty = False, body = 2\<rparr>]
   \<and> d_lights (update_world_objects advance body advance e_anim)
       = [\<lparr>is_dirty = False, body = 4\<rparr>]
   \<and> all_clean (update_world_objects advance body advance e_anim)"
proof -
  have n: "needs_reset_of e_all" "needs_reset_of e_anim"
    by (simp_all add: needs_reset_of_def e_all_facts e_anim_facts any_dirty_def)
  note a = sync_uploads_whole_categories[of keep body keep e_all]
  note b = sync_uploads_whole_categories[of advance body advance e_anim]
  have all: "\<not> m_enable_animations e_all
   \<and> gpu_log (update_world_objects keep body keep e_all)
       = [UploadWorld, UploadMaterials, UploadLights,
          RaytracerResetAccumulation, TestbedResetAccumulation]
   \<and> d_world (update_world_objects keep body keep e_all) = [5]
   \<and> d_materials (update_world_objects keep body keep e_all)
       = [\<lparr>is_dirty = False, body = 2\<rparr>, \<lparr>is_dirty = False, body = 6\<rparr>]
   \<and> d_lights (update_world_objects keep body keep e_all) = [\<lparr>is_dirty = False, body = 4\<rparr>]
   \<and> all_clean (update_world_objects keep body keep e_all)
   \<and> resets (gpu_log (update_world_objects keep body keep e_all)) = 1"
    using a n(1) by (simp add: e_all_facts resets_def keep_def any_dirty_def)
  have anim: "m_enable_animations e_anim
   \<and> gpu_log (update_world_objects advance body advance e_anim)
       = [UploadWorld, UploadLights, RaytracerResetAccumulation, TestbedResetAccumulation]
   \<and> m_objects (update_world_objects advance body advance e_anim)
       = [\<lparr>is_dirty = False, body = 2\<rparr>]
   \<and> d_world (update_world_objects advance body advance e_anim) = [2]
   \<and> d_materials (update_world_objects advance body advance e_anim)
       = [\<lparr>is_dirty = False, body = 2\<rparr>]
   \<and> d_lights (update_world_objects advance body advance e_anim)
       = [\<lparr>is_dirty = False, body = 4\<rparr>]
   \<and> all_clean (update_world_objects advance body advance e_anim)"
    using b n(2) advance_keeps_flag by (simp add: e_anim_facts advance_def any_dirty_def)
  from all anim advance_keeps_flag show ?thesis by blast
qed

theorem redraw_flag_reset_counterexample:
  "all_clean e_redraw \<and> \<not> m_enable_animations e_redraw
   \<and> uploads (gpu_log e_redraw) = 0 \<and> resets (gpu_log e_redraw) = 0
   \<and> uploads (gpu_log (update_world_objects keep body keep e_redraw)) = 0
   \<and> resets (gpu_log (update_world_objects keep body keep e_redraw)) = 1"
  by (simp add: update_uploads update_resets needs_reset_of_def)
     (simp add: e_redraw_def e_clean_def all_clean_def any_dirty_def uploads_def resets_def)

section \<open>The inverse foveation warp\<close>

lemma inv_parabola_mono:
  assumes "a \<noteq> 0" "y1 \<le> y2"
  shows "inv_parabola a b c y1 \<le> inv_parabola a b c y2"
proof (cases "0 < a")
  case True
  then have "- 4 * a * c + 4 * a * y1 + b * b \<le> - 4 * a * c + 4 * a * y2 + b * b"
    using assms(2) by simp
  then have "sqrt (- 4 * a * c + 4 * a * y1 + b * b) - b \<le> sqrt (- 4 * a * c + 4 * a * y2 + b * b) - b"
    by simp
  then show ?thesis
    unfolding inv_parabola_def using True by (intro divide_right_mono) simp_all
next
  case False
  with assms(1) have neg: "a < 0" by simp
  then have "- 4 * a * c + 4 * a * y2 + b * b \<le> - 4 * a * c + 4 * a * y1 + b * b"
    using assms(2) by simp
  then have "sqrt (- 4 * a * c + 4 * a * y2 + b * b) - b \<le> sqrt (- 4 * a * c + 4 * a * y1 + b * b) - b"
    by simp
  then show ?thesis
    unfolding inv_parabola_def using neg by (intro divide_right_mono_neg) simp_all
qed

lemma radicand_at_switch:
  fixes a b c s :: real
  shows "- 4 * a * c + 4 * a * (a * s * s + b * s + c) + b * b = (2 * a * s + b)\<^sup>2"
  by (simp add: power2_eq_square algebra_simps)

lemma inv_parabola_at_switch:
  assumes "a \<noteq> 0" "0 \<le> 2 * a * s + b" "a * s * s + b * s + c = v"
  shows "inv_parabola a b c v = s"
proof -
  have "- 4 * a * c + 4 * a * v + b * b = (2 * a * s + b)\<^sup>2"
    using radicand_at_switch[of a c s b] assms(3) by simp
  then have "sqrt (- 4 * a * c + 4 * a * v + b * b) = 2 * a * s + b"
    using assms(2) by simp
  then show ?thesis using assms(1) by (simp add: inv_parabola_def)
qed

lemma radicand_between:
  fixes a :: real
  assumes "lo \<le> y" "y \<le> hi" "0 \<le> d + 4 * a * lo" "0 \<le> d + 4 * a * hi"
  shows "0 \<le> d + 4 * a * y"
proof (cases "0 \<le> a")
  case True
  then have "a * lo \<le> a * y" using assms(1) by (simp add: mult_left_mono)
  with assms(3) show ?thesis by simp
next
  case False
  then have "a * hi \<le> a * y" using assms(2) by (simp add: mult_left_mono_neg)
  with assms(4) show ?thesis by simp
qed

lemma unwarp_left_value:
  assumes "al w \<noteq> 0" "0 \<le> - 4 * al w * cl w + 4 * al w * y + bl w * bl w"
  shows "unwarp_left w y = Some (inv_parabola (al w) (bl w) (cl w) y)"
  using assms by (simp add: unwarp_left_def gl_sqrt_def gl_div_def inv_parabola_def)

lemma unwarp_right_value:
  assumes "ar w \<noteq> 0" "0 \<le> - 4 * ar w * cr w + 4 * ar w * y + br w * br w"
  shows "unwarp_right w y = Some (inv_parabola (ar w) (br w) (cr w) y)"
  using assms by (simp add: unwarp_right_def gl_sqrt_def gl_div_def inv_parabola_def)

lemma unwarp_middle_value:
  assumes "0 < am w"
  shows "unwarp_middle w y = Some ((y - bm w) / am w)"
  using assms by (simp add: unwarp_middle_def gl_div_def)

lemma left_radicand:
  assumes inv: "warp_invariant w" and use: "0 < inv_switch_left w"
    and y: "0 \<le> y" "y \<le> inv_switch_left w"
  shows "0 \<le> - 4 * al w * cl w + 4 * al w * y + bl w * bl w"
proof -
  from inv use have sw: "al w * switch_left w * switch_left w + bl w * switch_left w + cl w = inv_switch_left w"
    and d: "0 \<le> bl w * bl w - 4 * al w * cl w"
    by (simp_all add: warp_invariant_def)
  have "- 4 * al w * cl w + 4 * al w * inv_switch_left w + bl w * bl w
          = (2 * al w * switch_left w + bl w)\<^sup>2"
    using radicand_at_switch[of "al w" "cl w" "switch_left w" "bl w"] sw by simp
  then have hi: "0 \<le> (bl w * bl w - 4 * al w * cl w) + 4 * al w * inv_switch_left w"
    by (simp add: algebra_simps)
  have lo: "0 \<le> (bl w * bl w - 4 * al w * cl w) + 4 * al w * 0" using d by simp
  from radicand_between[OF y lo hi] show ?thesis by (simp add: algebra_simps)
qed

lemma right_radicand:
  assumes inv: "warp_invariant w" and use: "inv_switch_right w < 1"
    and y: "inv_switch_right w \<le> y" "y \<le> 1"
  shows "0 \<le> - 4 * ar w * cr w + 4 * ar w * y + br w * br w"
proof -
  from inv use have sw: "ar w * switch_right w * switch_right w + br w * switch_right w + cr w = inv_switch_right w"
    and d: "0 \<le> br w * br w - 4 * ar w * cr w + 4 * ar w"
    by (simp_all add: warp_invariant_def)
  have "- 4 * ar w * cr w + 4 * ar w * inv_switch_right w + br w * br w
          = (2 * ar w * switch_right w + br w)\<^sup>2"
    using radicand_at_switch[of "ar w" "cr w" "switch_right w" "br w"] sw by simp
  then have lo: "0 \<le> (br w * br w - 4 * ar w * cr w) + 4 * ar w * inv_switch_right w"
    by (simp add: algebra_simps)
  have hi: "0 \<le> (br w * br w - 4 * ar w * cr w) + 4 * ar w * 1" using d by simp
  from radicand_between[OF y lo hi] show ?thesis by (simp add: algebra_simps)
qed

lemma clamp_range: "0 \<le> clamp y 0 1" "clamp y 0 1 \<le> 1"
  by (simp_all add: clamp_def)

lemma clamp_mono: "y1 \<le> y2 \<Longrightarrow> clamp y1 0 1 \<le> clamp y2 0 1"
  by (simp add: clamp_def)

lemma clamp_id: "0 \<le> y \<Longrightarrow> y \<le> 1 \<Longrightarrow> clamp y 0 1 = y"
  by (simp add: clamp_def)

lemma unwarp_defined:
  assumes inv: "warp_invariant w"
  shows "unwarp w y = Some (unwarp_value w (clamp y 0 1))"
proof -
  let ?c = "clamp y 0 1"
  have c: "0 \<le> ?c" "?c \<le> 1" by (rule clamp_range)+
  have am: "0 < am w" using inv by (simp add: warp_invariant_def)
  show ?thesis
  proof (cases "?c < inv_switch_left w")
    case True
    with c have use: "0 < inv_switch_left w" by simp
    with inv have "al w \<noteq> 0" by (simp add: warp_invariant_def)
    moreover have "0 \<le> - 4 * al w * cl w + 4 * al w * ?c + bl w * bl w"
      using left_radicand[OF inv use c(1)] True by simp
    ultimately show ?thesis using True
      by (simp add: unwarp_def unwarp_value_def Let_def unwarp_left_value)
  next
    case nl: False
    show ?thesis
    proof (cases "?c > inv_switch_right w")
      case True
      with c have use: "inv_switch_right w < 1" by simp
      with inv have "ar w \<noteq> 0" by (simp add: warp_invariant_def)
      moreover have "0 \<le> - 4 * ar w * cr w + 4 * ar w * ?c + br w * br w"
        using right_radicand[OF inv use _ c(2)] True by simp
      ultimately show ?thesis using True nl
        by (simp add: unwarp_def unwarp_value_def Let_def unwarp_right_value)
    next
      case False
      with nl am show ?thesis
        by (simp add: unwarp_def unwarp_value_def Let_def unwarp_middle_value)
    qed
  qed
qed

lemma left_at_switch:
  assumes inv: "warp_invariant w" and use: "0 < inv_switch_left w"
  shows "inv_parabola (al w) (bl w) (cl w) (inv_switch_left w) = switch_left w"
  using inv use by (intro inv_parabola_at_switch) (simp_all add: warp_invariant_def)

lemma right_at_switch:
  assumes inv: "warp_invariant w" and use: "inv_switch_right w < 1"
  shows "inv_parabola (ar w) (br w) (cr w) (inv_switch_right w) = switch_right w"
  using inv use by (intro inv_parabola_at_switch) (simp_all add: warp_invariant_def)

lemma middle_at_switch:
  assumes inv: "warp_invariant w"
  shows "(inv_switch_left w - bm w) / am w = switch_left w"
    and "(inv_switch_right w - bm w) / am w = switch_right w"
  using inv by (simp_all add: warp_invariant_def)

lemma middle_mono:
  assumes inv: "warp_invariant w" and "y1 \<le> y2"
  shows "(y1 - bm w) / am w \<le> (y2 - bm w) / am w"
  using assms by (simp add: warp_invariant_def divide_right_mono)

lemma value_left_bound:
  assumes inv: "warp_invariant w" and c: "0 \<le> c" "c < inv_switch_left w"
  shows "unwarp_value w c \<le> switch_left w"
proof -
  from c have use: "0 < inv_switch_left w" by simp
  with inv have "al w \<noteq> 0" by (simp add: warp_invariant_def)
  then have "inv_parabola (al w) (bl w) (cl w) c
               \<le> inv_parabola (al w) (bl w) (cl w) (inv_switch_left w)"
    using c by (intro inv_parabola_mono) simp_all
  then show ?thesis using c left_at_switch[OF inv use] by (simp add: unwarp_value_def)
qed

lemma value_right_bound:
  assumes inv: "warp_invariant w" and c: "c \<le> 1" "inv_switch_right w < c" "\<not> c < inv_switch_left w"
  shows "switch_right w \<le> unwarp_value w c"
proof -
  from c have use: "inv_switch_right w < 1" by simp
  with inv have "ar w \<noteq> 0" by (simp add: warp_invariant_def)
  then have "inv_parabola (ar w) (br w) (cr w) (inv_switch_right w)
               \<le> inv_parabola (ar w) (br w) (cr w) c"
    using c by (intro inv_parabola_mono) simp_all
  then show ?thesis using c right_at_switch[OF inv use] by (simp add: unwarp_value_def)
qed

lemma value_middle_bounds:
  assumes inv: "warp_invariant w" and c: "\<not> c < inv_switch_left w" "\<not> c > inv_switch_right w"
  shows "switch_left w \<le> unwarp_value w c" "unwarp_value w c \<le> switch_right w"
proof -
  have "(inv_switch_left w - bm w) / am w \<le> (c - bm w) / am w"
    using c by (intro middle_mono[OF inv]) simp
  then show "switch_left w \<le> unwarp_value w c"
    using c middle_at_switch[OF inv] by (simp add: unwarp_value_def)
  have "(c - bm w) / am w \<le> (inv_switch_right w - bm w) / am w"
    using c by (intro middle_mono[OF inv]) simp
  then show "unwarp_value w c \<le> switch_right w"
    using c middle_at_switch[OF inv] by (simp add: unwarp_value_def)
qed

lemma switches_ordered:
  assumes inv: "warp_invariant w"
  shows "switch_left w \<le> switch_right w" "inv_switch_left w \<le> inv_switch_right w"
proof -
  show sl: "switch_left w \<le> switch_right w" using inv by (simp add: warp_invariant_def)
  have "0 < am w" using inv by (simp add: warp_invariant_def)
  with sl have "am w * switch_left w \<le> am w * switch_right w" by simp
  then show "inv_switch_left w \<le> inv_switch_right w"
    using inv by (simp add: warp_invariant_def)
qed

lemma unwarp_value_mono:
  assumes inv: "warp_invariant w" and c: "0 \<le> c1" "c1 \<le> c2" "c2 \<le> 1"
  shows "unwarp_value w c1 \<le> unwarp_value w c2"
proof -
  note ord = switches_ordered[OF inv]
  consider (L) "c1 < inv_switch_left w"
    | (R) "\<not> c1 < inv_switch_left w" "c1 > inv_switch_right w"
    | (M) "\<not> c1 < inv_switch_left w" "\<not> c1 > inv_switch_right w"
    by blast
  then show ?thesis
  proof cases
    case L
    then have use: "0 < inv_switch_left w" using c by simp
    with inv have a: "al w \<noteq> 0" by (simp add: warp_invariant_def)
    note b1 = value_left_bound[OF inv c(1) L]
    consider (L2) "c2 < inv_switch_left w"
      | (R2) "\<not> c2 < inv_switch_left w" "c2 > inv_switch_right w"
      | (M2) "\<not> c2 < inv_switch_left w" "\<not> c2 > inv_switch_right w"
      by blast
    then show ?thesis
    proof cases
      case L2
      with L show ?thesis
        using inv_parabola_mono[OF a c(2)] by (simp add: unwarp_value_def)
    next
      case R2
      from value_right_bound[OF inv c(3) R2(2) R2(1)] b1 ord show ?thesis by linarith
    next
      case M2
      from value_middle_bounds(1)[OF inv M2] b1 show ?thesis by linarith
    qed
  next
    case R
    then have r2: "\<not> c2 < inv_switch_left w" "c2 > inv_switch_right w" using c by simp_all
    from R c have use: "inv_switch_right w < 1" by simp
    with inv have a: "ar w \<noteq> 0" by (simp add: warp_invariant_def)
    from R r2 show ?thesis
      using inv_parabola_mono[OF a c(2)] by (simp add: unwarp_value_def)
  next
    case M
    then have nl: "\<not> c2 < inv_switch_left w" using c by simp
    show ?thesis
    proof (cases "c2 > inv_switch_right w")
      case True
      from value_right_bound[OF inv c(3) True nl] value_middle_bounds(2)[OF inv M]
      show ?thesis by linarith
    next
      case False
      with M nl show ?thesis
        using middle_mono[OF inv c(2)] by (simp add: unwarp_value_def)
    qed
  qed
qed

lemma inv_parabola_continuous: "continuous_on S (inv_parabola a b c)"
  unfolding inv_parabola_def divide_inverse by (intro continuous_intros)

lemma middle_continuous: "continuous_on S (\<lambda>c. (c - (p::real)) / q)"
  unfolding divide_inverse by (intro continuous_intros)

lemma upper_continuous:
  assumes inv: "warp_invariant w"
  shows "continuous_on {0..1}
           (\<lambda>c. if c > inv_switch_right w then inv_parabola (ar w) (br w) (cr w) c
                else (c - bm w) / am w)"
proof (cases "inv_switch_right w < 1")
  case True
  have "continuous_on ({inv_switch_right w..} \<union> {..inv_switch_right w})
           (\<lambda>c. if c > inv_switch_right w then inv_parabola (ar w) (br w) (cr w) c
                else (c - bm w) / am w)"
  proof (rule continuous_on_If)
    show "closed {inv_switch_right w..}" "closed {..inv_switch_right w}" by simp_all
    show "continuous_on {inv_switch_right w..} (inv_parabola (ar w) (br w) (cr w))"
      by (rule inv_parabola_continuous)
    show "continuous_on {..inv_switch_right w} (\<lambda>c. (c - bm w) / am w)"
      by (rule middle_continuous)
  next
    fix x assume "x \<in> {inv_switch_right w..}" "\<not> inv_switch_right w < x"
    then have "x = inv_switch_right w" by simp
    then show "inv_parabola (ar w) (br w) (cr w) x = (x - bm w) / am w"
      using right_at_switch[OF inv True] middle_at_switch(2)[OF inv] by simp
  next
    fix x assume "x \<in> {..inv_switch_right w}" "inv_switch_right w < x"
    then show "inv_parabola (ar w) (br w) (cr w) x = (x - bm w) / am w" by simp
  qed
  then show ?thesis by (rule continuous_on_subset) auto
next
  case False
  have "continuous_on {0..1} (\<lambda>c. (c - bm w) / am w)" by (rule middle_continuous)
  moreover have "\<And>c. c \<in> {0..1} \<Longrightarrow>
      (if c > inv_switch_right w then inv_parabola (ar w) (br w) (cr w) c else (c - bm w) / am w)
        = (c - bm w) / am w"
    using False by simp
  ultimately show ?thesis by (simp cong: continuous_on_cong_simp)
qed

lemma unwarp_value_continuous:
  assumes inv: "warp_invariant w"
  shows "continuous_on {0..1} (unwarp_value w)"
proof -
  let ?up = "\<lambda>c. if c > inv_switch_right w then inv_parabola (ar w) (br w) (cr w) c
                else (c - bm w) / am w"
  have eq: "unwarp_value w = (\<lambda>c. if c < inv_switch_left w
                                  then inv_parabola (al w) (bl w) (cl w) c else ?up c)"
    by (rule ext) (simp add: unwarp_value_def)
  show ?thesis
  proof (cases "0 < inv_switch_left w")
    case True
    have "continuous_on (({0..1} \<inter> {..inv_switch_left w}) \<union> ({0..1} \<inter> {inv_switch_left w..}))
            (\<lambda>c. if c < inv_switch_left w then inv_parabola (al w) (bl w) (cl w) c else ?up c)"
    proof (rule continuous_on_If)
      show "closed ({0..1} \<inter> {..inv_switch_left w})" "closed ({0..1} \<inter> {inv_switch_left w..})"
        by (simp_all add: closed_Int)
      show "continuous_on ({0..1} \<inter> {..inv_switch_left w}) (inv_parabola (al w) (bl w) (cl w))"
        by (rule inv_parabola_continuous)
      show "continuous_on ({0..1} \<inter> {inv_switch_left w..}) ?up"
        by (rule continuous_on_subset[OF upper_continuous[OF inv]]) simp
    next
      fix x assume "x \<in> {0..1} \<inter> {..inv_switch_left w}" "\<not> x < inv_switch_left w"
      then have x: "x = inv_switch_left w" by simp
      have "\<not> inv_switch_left w > inv_switch_right w"
        using switches_ordered(2)[OF inv] by simp
      then show "inv_parabola (al w) (bl w) (cl w) x = ?up x"
        using x left_at_switch[OF inv True] middle_at_switch(1)[OF inv] by simp
    next
      fix x assume "x \<in> {0..1} \<inter> {inv_switch_left w..}" "x < inv_switch_left w"
      then show "inv_parabola (al w) (bl w) (cl w) x = ?up x" by simp
    qed
    moreover have "({0..1} \<inter> {..inv_switch_left w}) \<union> ({0..1} \<inter> {inv_switch_left w..}) = {0..1::real}"
      by auto
    ultimately show ?thesis by (simp add: eq)
  next
    case False
    have "\<And>c. c \<in> {0..1} \<Longrightarrow>
        (if c < inv_switch_left w then inv_parabola (al w) (bl w) (cl w) c else ?up c) = ?up c"
      using False by simp
    with upper_continuous[OF inv] show ?thesis
      unfolding eq by (simp cong: continuous_on_cong_simp)
  qed
qed

lemma unwarp_continuous:
  assumes inv: "warp_invariant w"
  shows "continuous_on {0..1} (\<lambda>y. the (unwarp w y))"
proof -
  have "\<And>y. y \<in> {0..1} \<Longrightarrow> the (unwarp w y) = unwarp_value w y"
    by (simp add: unwarp_defined[OF inv] clamp_id)
  with unwarp_value_continuous[OF inv] show ?thesis
    by (simp cong: continuous_on_cong_simp)
qed

text \<open>
  C8. For warp parameters that satisfy the invariant, \<open>unwarp\<close> is defined at every
  coordinate and is monotonically non-decreasing; at each switch point whose parabola is
  in use, the parabola branch and the linear branch take the same value (the switch
  point of the forward warp), and the value of \<open>unwarp\<close> is a continuous function of
  the coordinate on \<open>[0, 1]\<close>, the two switch points included.
\<close>

theorem unwarp_monotone_continuous:
  assumes "warp_invariant w"
  shows "(\<forall>y. \<exists>u. unwarp w y = Some u)
       \<and> (\<forall>y1 y2 u1 u2. y1 \<le> y2 \<and> unwarp w y1 = Some u1 \<and> unwarp w y2 = Some u2 \<longrightarrow> u1 \<le> u2)
       \<and> (0 < inv_switch_left w \<longrightarrow>
            unwarp_left w (inv_switch_left w) = Some (switch_left w)
          \<and> unwarp_middle w (inv_switch_left w) = Some (switch_left w))
       \<and> (inv_switch_right w < 1 \<longrightarrow>
            unwarp_right w (inv_switch_right w) = Some (switch_right w)
          \<and> unwarp_middle w (inv_switch_right w) = Some (switch_right w))
       \<and> continuous_on {0..1} (\<lambda>y. the (unwarp w y))"
proof (intro conjI allI impI)
  fix y show "\<exists>u. unwarp w y = Some u"
    using unwarp_defined[OF assms] by blast
next
  fix y1 y2 u1 u2
  assume h: "y1 \<le> y2 \<and> unwarp w y1 = Some u1 \<and> unwarp w y2 = Some u2"
  then have "u1 = unwarp_value w (clamp y1 0 1)" "u2 = unwarp_value w (clamp y2 0 1)"
    using unwarp_defined[OF assms] by simp_all
  moreover have "unwarp_value w (clamp y1 0 1) \<le> unwarp_value w (clamp y2 0 1)"
    using h by (intro unwarp_value_mono[OF assms] clamp_range clamp_mono) simp
  ultimately show "u1 \<le> u2" by simp
next
  assume use: "0 < inv_switch_left w"
  have "al w \<noteq> 0" using assms use by (simp add: warp_invariant_def)
  moreover have "0 \<le> - 4 * al w * cl w + 4 * al w * inv_switch_left w + bl w * bl w"
    using left_radicand[OF assms use, of "inv_switch_left w"] use by simp
  ultimately show "unwarp_left w (inv_switch_left w) = Some (switch_left w)"
    by (simp add: unwarp_left_value left_at_switch[OF assms use])
next
  assume "0 < inv_switch_left w"
  show "unwarp_middle w (inv_switch_left w) = Some (switch_left w)"
    using assms middle_at_switch(1)[OF assms]
    by (simp add: unwarp_middle_value warp_invariant_def)
next
  assume use: "inv_switch_right w < 1"
  have "ar w \<noteq> 0" using assms use by (simp add: warp_invariant_def)
  moreover have "0 \<le> - 4 * ar w * cr w + 4 * ar w * inv_switch_right w + br w * br w"
    using right_radicand[OF assms use, of "inv_switch_right w"] use by simp
  ultimately show "unwarp_right w (inv_switch_right w) = Some (switch_right w)"
    by (simp add: unwarp_right_value right_at_switch[OF assms use])
next
  assume "inv_switch_right w < 1"
  show "unwarp_middle w (inv_switch_right w) = Some (switch_right w)"
    using assms middle_at_switch(2)[OF assms]
    by (simp add: unwarp_middle_value warp_invariant_def)
next
  show "continuous_on {0..1} (\<lambda>y. the (unwarp w y))"
    by (rule unwarp_continuous[OF assms])
qed

lemma curved_warp_invariant: "warp_invariant curved_warp"
  by (simp add: warp_invariant_def curved_warp_def)

lemma identity_warp_invariant: "warp_invariant identity_warp"
  by (simp add: warp_invariant_def identity_warp_def)

lemma unwarp_identity: "unwarp identity_warp y = Some (clamp y 0 1)"
  using clamp_range[of y]
  by (simp add: unwarp_defined[OF identity_warp_invariant] unwarp_value_def)
     (simp add: identity_warp_def)

theorem unwarp_monotone_witness:
  "warp_invariant curved_warp
   \<and> 0 < inv_switch_left curved_warp \<and> inv_switch_right curved_warp < 1
   \<and> (\<exists>u1 u2. unwarp curved_warp (1 / 16) = Some u1 \<and> unwarp curved_warp (7 / 8) = Some u2
          \<and> u1 \<le> u2)
   \<and> unwarp_left curved_warp (1 / 4) = Some (1 / 2)
   \<and> unwarp_middle curved_warp (1 / 4) = Some (1 / 2)
   \<and> unwarp_right curved_warp (1 / 2) = Some (3 / 4)
   \<and> unwarp_middle curved_warp (1 / 2) = Some (3 / 4)
   \<and> continuous_on {0..1} (\<lambda>y. the (unwarp curved_warp y))"
proof -
  note h = curved_warp_invariant
  have sw: "inv_switch_left curved_warp = 1 / 4" "inv_switch_right curved_warp = 1 / 2"
    "switch_left curved_warp = 1 / 2" "switch_right curved_warp = 3 / 4"
    by (simp_all add: curved_warp_def)
  note t = unwarp_monotone_continuous[OF h]
  from t obtain u1 where u1: "unwarp curved_warp (1 / 16) = Some u1" by blast
  from t obtain u2 where u2: "unwarp curved_warp (7 / 8) = Some u2" by blast
  from t have mono: "\<forall>y1 y2 u1 u2. y1 \<le> y2 \<and> unwarp curved_warp y1 = Some u1
      \<and> unwarp curved_warp y2 = Some u2 \<longrightarrow> u1 \<le> u2"
    by (rule conjunct1[OF conjunct2])
  have "(1 / 16 :: real) \<le> 7 / 8" by simp
  with mono u1 u2 have le: "u1 \<le> u2" by blast
  from t have "0 < inv_switch_left curved_warp \<longrightarrow>
            unwarp_left curved_warp (inv_switch_left curved_warp) = Some (switch_left curved_warp)
          \<and> unwarp_middle curved_warp (inv_switch_left curved_warp) = Some (switch_left curved_warp)"
    and "inv_switch_right curved_warp < 1 \<longrightarrow>
            unwarp_right curved_warp (inv_switch_right curved_warp) = Some (switch_right curved_warp)
          \<and> unwarp_middle curved_warp (inv_switch_right curved_warp) = Some (switch_right curved_warp)"
    by blast+
  then have sws: "unwarp_left curved_warp (1 / 4) = Some (1 / 2)"
      "unwarp_middle curved_warp (1 / 4) = Some (1 / 2)"
      "unwarp_right curved_warp (1 / 2) = Some (3 / 4)"
      "unwarp_middle curved_warp (1 / 2) = Some (3 / 4)"
    by (simp_all add: sw)
  from t have "continuous_on {0..1} (\<lambda>y. the (unwarp curved_warp y))" by blast
  with h u1 u2 le sws show ?thesis by (simp add: sw)
qed

section \<open>The compositing shader and its textures\<close>

lemma main_frag_eq:
  "main_frag inp =
     (case unwarp2 (warp_x inp) (warp_y inp) (Vec2 (v2x (UVs inp)) (1 - v2y (UVs inp))) of
        None \<Rightarrow> None
      | Some c \<Rightarrow> Some (vec4_of (rgb (syn_rgba inp c)) 1, v4x (syn_depth inp c)))"
  by (simp add: main_frag_def Let_def split: option.split)

lemma gl_blend_opaque: "gl_blend (vec4_of v 1) dst = vec4_of v 1"
  by (simp add: gl_blend_def vec4_of_def)

lemma transfer_texture_state:
  assumes "blit_program \<noteq> 0"
    and "distinct [t_syn_rgba, t_syn_depth, t_nerf_rgba, t_nerf_depth]"
  shows "parameters (transfer_texture blit_program t_syn_rgba t_syn_depth mode
                       t_nerf_rgba t_nerf_depth g)
         = (parameters g)
             (t_nerf_depth := \<lparr>wrap_s = GL_REPEAT, wrap_t = GL_REPEAT,
                               min_filter = mode, mag_filter = mode\<rparr>,
              t_nerf_rgba := \<lparr>wrap_s = GL_REPEAT, wrap_t = GL_REPEAT,
                              min_filter = GL_NEAREST, mag_filter = GL_NEAREST\<rparr>,
              t_syn_depth := \<lparr>wrap_s = GL_REPEAT, wrap_t = GL_REPEAT,
                              min_filter = GL_NEAREST, mag_filter = GL_NEAREST\<rparr>,
              t_syn_rgba := \<lparr>wrap_s = GL_REPEAT, wrap_t = GL_REPEAT,
                             min_filter = mode, mag_filter = mode\<rparr>)"
    and "unit_binding (transfer_texture blit_program t_syn_rgba t_syn_depth mode
                       t_nerf_rgba t_nerf_depth g)
         = (unit_binding g)(3 := t_nerf_depth, 2 := t_nerf_rgba, 1 := t_syn_depth, 0 := t_syn_rgba)"
  using assms
  by (simp_all add: transfer_texture_def glActiveTexture_def glBindTexture_def
        glTexParameters_def Let_def)

text \<open>
  C3 (as amended).  For every display pixel at which \<open>unwarp\<close> is defined, the shader
  samples the synthetic colour and depth textures at the unwarped source coordinate (the
  vertical coordinate flipped first) and nothing else: the neural textures are not read,
  and the output is the same whatever they hold.  The colour is the synthetic \<open>rgb\<close>
  with alpha 1, which the blend state of \<open>present\<close> writes over the background
  unchanged; the depth is the synthetic depth sample.  \<open>transfer_texture\<close> sets nearest
  filtering on the neural colour texture and on the synthetic depth texture, and the
  filter chosen by its caller (\<open>GL_LINEAR\<close> from \<open>present\<close>) on the synthetic colour
  texture and on the neural depth texture.
\<close>

theorem shader_outputs_synthetic_sample:
  "main_frag (inp\<lparr>nerf_rgba := f, nerf_depth := g\<rparr>) = main_frag inp
   \<and> (\<forall>color d. main_frag inp = Some (color, d) \<longrightarrow>
        (\<exists>c. unwarp2 (warp_x inp) (warp_y inp) (Vec2 (v2x (UVs inp)) (1 - v2y (UVs inp))) = Some c
            \<and> color = vec4_of (rgb (syn_rgba inp c)) 1
            \<and> d = v4x (syn_depth inp c))
        \<and> gl_blend color dst = color)
   \<and> (blit_program \<noteq> 0 \<and> distinct [t_syn_rgba, t_syn_depth, t_nerf_rgba, t_nerf_depth] \<longrightarrow>
        min_filter (parameters (transfer_texture blit_program t_syn_rgba t_syn_depth mode
                                  t_nerf_rgba t_nerf_depth gl) t_nerf_rgba) = GL_NEAREST
      \<and> mag_filter (parameters (transfer_texture blit_program t_syn_rgba t_syn_depth mode
                                  t_nerf_rgba t_nerf_depth gl) t_nerf_rgba) = GL_NEAREST
      \<and> min_filter (parameters (transfer_texture blit_program t_syn_rgba t_syn_depth mode
                                  t_nerf_rgba t_nerf_depth gl) t_syn_rgba) = mode
      \<and> mag_filter (parameters (transfer_texture blit_program t_syn_rgba t_syn_depth mode
                                  t_nerf_rgba t_nerf_depth gl) t_syn_rgba) = mode
      \<and> min_filter (parameters (transfer_texture blit_program t_syn_rgba t_syn_depth mode
                                  t_nerf_rgba t_nerf_depth gl) t_syn_depth) = GL_NEAREST
      \<and> min_filter (parameters (transfer_texture blit_program t_syn_rgba t_syn_depth mode
                                  t_nerf_rgba t_nerf_depth gl) t_nerf_depth) = mode
      \<and> min_filter (parameters (present_textures blit_program t_nerf_rgba t_nerf_depth
                                  t_syn_rgba t_syn_depth gl) t_syn_rgba) = GL_LINEAR
      \<and> unit_binding (transfer_texture blit_program t_syn_rgba t_syn_depth mode
                                  t_nerf_rgba t_nerf_depth gl) 0 = t_syn_rgba
      \<and> unit_binding (transfer_texture blit_program t_syn_rgba t_syn_depth mode
                                  t_nerf_rgba t_nerf_depth gl) 2 = t_nerf_rgba)"
proof (intro conjI allI impI)
  show "main_frag (inp\<lparr>nerf_rgba := f, nerf_depth := g\<rparr>) = main_frag inp"
    by (simp add: main_frag_eq split: option.split)
next
  fix color d assume r: "main_frag inp = Some (color, d)"
  then show "\<exists>c. unwarp2 (warp_x inp) (warp_y inp) (Vec2 (v2x (UVs inp)) (1 - v2y (UVs inp))) = Some c
            \<and> color = vec4_of (rgb (syn_rgba inp c)) 1
            \<and> d = v4x (syn_depth inp c)"
    by (auto simp: main_frag_eq split: option.splits)
  then show "gl_blend color dst = color"
    by (auto simp: gl_blend_opaque)
next
  assume h: "blit_program \<noteq> 0 \<and> distinct [t_syn_rgba, t_syn_depth, t_nerf_rgba, t_nerf_depth]"
  then have p: "blit_program \<noteq> 0" and ds: "distinct [t_syn_rgba, t_syn_depth, t_nerf_rgba, t_nerf_depth]"
    by simp_all
  note st = transfer_texture_state[OF p ds]
  show "min_filter (parameters (transfer_texture blit_program t_syn_rgba t_syn_depth mode
                                  t_nerf_rgba t_nerf_depth gl) t_nerf_rgba) = GL_NEAREST"
    and "mag_filter (parameters (transfer_texture blit_program t_syn_rgba t_syn_depth mode
                                  t_nerf_rgba t_nerf_depth gl) t_nerf_rgba) = GL_NEAREST"
    and "min_filter (parameters (transfer_texture blit_program t_syn_rgba t_syn_depth mode
                                  t_nerf_rgba t_nerf_depth gl) t_syn_rgba) = mode"
    and "mag_filter (parameters (transfer_texture blit_program t_syn_rgba t_syn_depth mode
                                  t_nerf_rgba t_nerf_depth gl) t_syn_rgba) = mode"
    and "min_filter (parameters (transfer_texture blit_program t_syn_rgba t_syn_depth mode
                                  t_nerf_rgba t_nerf_depth gl) t_syn_depth) = GL_NEAREST"
    and "min_filter (parameters (transfer_texture blit_program t_syn_rgba t_syn_depth mode
                                  t_nerf_rgba t_nerf_depth gl) t_nerf_depth) = mode"
    and "min_filter (parameters (present_textures blit_program t_nerf_rgba t_nerf_depth
                                  t_syn_rgba t_syn_depth gl) t_syn_rgba) = GL_LINEAR"
    and "unit_binding (transfer_texture blit_program t_syn_rgba t_syn_depth mode
                                  t_nerf_rgba t_nerf_depth gl) 0 = t_syn_rgba"
    and "unit_binding (transfer_texture blit_program t_syn_rgba t_syn_depth mode
                                  t_nerf_rgba t_nerf_depth gl) 2 = t_nerf_rgba"
    using ds by (simp_all add: st present_textures_def)
qed

lemma frag0_result: "main_frag frag0 = Some (Vec4 0 0 0 1, 1 / 2)"
  by (simp add: main_frag_eq unwarp2_def)
     (simp add: frag0_def unwarp_identity clamp_def vec4_of_def rgb_def)

theorem shader_outputs_synthetic_witness:
  "main_frag frag0 = Some (Vec4 0 0 0 1, 1 / 2)
   \<and> main_frag (frag0\<lparr>nerf_rgba := (\<lambda>p. Vec4 0 1 0 1), nerf_depth := (\<lambda>p. Vec4 1 0 0 0)\<rparr>)
       = main_frag frag0
   \<and> gl_blend (Vec4 0 0 0 1) (Vec4 1 1 1 1) = Vec4 0 0 0 1
   \<and> ((1::nat) \<noteq> 0 \<and> distinct [10, 11, 12, 13 :: nat])
   \<and> min_filter (parameters (transfer_texture 1 10 11 GL_LINEAR 12 13 gl0) 12) = GL_NEAREST
   \<and> min_filter (parameters (transfer_texture 1 10 11 GL_LINEAR 12 13 gl0) 10) = GL_LINEAR"
proof -
  have h: "(1::nat) \<noteq> 0 \<and> distinct [10, 11, 12, 13 :: nat]" by simp
  from shader_outputs_synthetic_sample[where inp = frag0 and f = "\<lambda>p. Vec4 0 1 0 1"
         and g = "\<lambda>p. Vec4 1 0 0 0" and dst = "Vec4 1 1 1 1" and blit_program = 1
         and t_syn_rgba = 10 and t_syn_depth = 11 and t_nerf_rgba = 12 and t_nerf_depth = 13
         and mode = GL_LINEAR and gl = gl0] frag0_result h
  show ?thesis by (simp add: gl_blend_def)
qed

theorem shader_ignores_neural_counterexample:
  "map_option fst (main_frag frag0)
     \<noteq> Some (spec_alpha_over (syn_rgba frag0 (Vec2 (1 / 2) (1 / 2)))
                              (nerf_rgba frag0 (Vec2 (1 / 2) (1 / 2))))
   \<and> map_option fst (main_frag frag0) = Some (Vec4 0 0 0 1)
   \<and> spec_alpha_over (syn_rgba frag0 (Vec2 (1 / 2) (1 / 2)))
                      (nerf_rgba frag0 (Vec2 (1 / 2) (1 / 2))) = Vec4 1 1 1 1"
  by (simp add: frag0_result) (simp add: frag0_def spec_alpha_over_def)

end
